theory Spec2Isabelle
  imports Main
begin

section \<open>Constants and the \<open>Utilities\<close> module\<close>

text \<open>
  The two source files (\<^verbatim>\<open>src/api/script/redis-manager.ts\<close>, built on Q promises, and
  \<^verbatim>\<open>src/unnamed/part_000\<close>, built on async/await) declare the same constants and the same
  \<^verbatim>\<open>Utilities\<close> module, character for character; they are embedded once.
  A JavaScript \<^verbatim>\<open>null\<close> returned where a string is declared is \<open>None\<close>.
  A string used as a condition is true exactly when it is not empty.
\<close>

definition DEPLOYMENT_SUCCEEDED :: string where
  "DEPLOYMENT_SUCCEEDED = ''DeploymentSucceeded''"

definition DEPLOYMENT_FAILED :: string where
  "DEPLOYMENT_FAILED = ''DeploymentFailed''"

definition ACTIVE :: string where
  "ACTIVE = ''Active''"

definition DOWNLOADED :: string where
  "DOWNLOADED = ''Downloaded''"

definition isValidDeploymentStatus :: "string \<Rightarrow> bool" where
  "isValidDeploymentStatus status =
     (status = DEPLOYMENT_SUCCEEDED \<or> status = DEPLOYMENT_FAILED \<or> status = DOWNLOADED)"

definition getLabelStatusField :: "string \<Rightarrow> string \<Rightarrow> string option" where
  "getLabelStatusField label status =
     (if isValidDeploymentStatus status then Some (label @ '':'' @ status) else None)"

definition getLabelActiveCountField :: "string \<Rightarrow> string option" where
  "getLabelActiveCountField label =
     (if label \<noteq> [] then Some (label @ '':'' @ ACTIVE) else None)"

definition getDeploymentKeyHash :: "string \<Rightarrow> string" where
  "getDeploymentKeyHash deploymentKey = ''deploymentKey:'' @ deploymentKey"

definition getDeploymentKeyLabelsHash :: "string \<Rightarrow> string" where
  "getDeploymentKeyLabelsHash deploymentKey = ''deploymentKeyLabels:'' @ deploymentKey"

definition getDeploymentKeyClientsHash :: "string \<Rightarrow> string" where
  "getDeploymentKeyClientsHash deploymentKey = ''deploymentKeyClients:'' @ deploymentKey"

text \<open>Truthiness of a value of type \<^verbatim>\<open>string | null | undefined\<close>.\<close>

definition truthy :: "string option \<Rightarrow> bool" where
  "truthy v = (case v of None \<Rightarrow> False | Some s \<Rightarrow> s \<noteq> [])"

section \<open>Numbers: \<^verbatim>\<open>parseInt(s, 10)\<close> and decimal rendering\<close>

text \<open>
  A string of the model is the UTF-8 encoding of the JavaScript string, which is how the
  store holds it and how the client sends and receives it.

  \<^verbatim>\<open>parseInt(s, 10)\<close> skips leading white space, reads an optional sign, then the longest
  run of decimal digits; with no digit it yields \<^verbatim>\<open>NaN\<close>, and it never throws.
  What follows the digits is ignored. The white space of the language is TAB, LF, VT, FF,
  CR, SP, U+00A0, U+1680, U+2000 to U+200A, U+2028, U+2029, U+202F, U+205F, U+3000 and
  U+FEFF, listed here by their encodings. The result is a JavaScript number, a double:
  the integer the digits denote, rounded once to the nearest double with ties to the even
  significand, an infinity from \<open>2^1024\<close> on, and a signed zero. Every integer up to
  \<open>2^53\<close> in magnitude is a double.
\<close>

text \<open>
  The well-formed UTF-8 byte sequences: one byte below 0x80; a lead byte 0xC2 to 0xDF and
  one continuation byte; a lead byte 0xE0 to 0xEF and two, without the overlong forms and
  the surrogates; a lead byte 0xF0 to 0xF4 and three, up to U+10FFFF. These are the
  encodings of the JavaScript strings, and the only byte strings the client hands back
  unchanged.
\<close>

definition byte :: "char \<Rightarrow> nat" where
  "byte c = of_char c"

definition between :: "nat \<Rightarrow> nat \<Rightarrow> char \<Rightarrow> bool" where
  "between lo hi c = (lo \<le> byte c \<and> byte c \<le> hi)"

fun wellFormedUTF8 :: "string \<Rightarrow> bool" where
  "wellFormedUTF8 [] = True"
| "wellFormedUTF8 [a] = (byte a < 0x80)"
| "wellFormedUTF8 [a, b] =
     (if byte a < 0x80 then wellFormedUTF8 [b]
      else between 0xC2 0xDF a \<and> between 0x80 0xBF b)"
| "wellFormedUTF8 [a, b, c] =
     (if byte a < 0x80 then wellFormedUTF8 [b, c]
      else if between 0xC2 0xDF a then between 0x80 0xBF b \<and> wellFormedUTF8 [c]
      else ((byte a = 0xE0 \<and> between 0xA0 0xBF b) \<or> (between 0xE1 0xEC a \<and> between 0x80 0xBF b)
            \<or> (byte a = 0xED \<and> between 0x80 0x9F b) \<or> (between 0xEE 0xEF a \<and> between 0x80 0xBF b))
           \<and> between 0x80 0xBF c)"
| "wellFormedUTF8 (a # b # c # d # s) =
     (if byte a < 0x80 then wellFormedUTF8 (b # c # d # s)
      else if between 0xC2 0xDF a then between 0x80 0xBF b \<and> wellFormedUTF8 (c # d # s)
      else if between 0xE0 0xEF a
      then ((byte a = 0xE0 \<and> between 0xA0 0xBF b) \<or> (between 0xE1 0xEC a \<and> between 0x80 0xBF b)
            \<or> (byte a = 0xED \<and> between 0x80 0x9F b) \<or> (between 0xEE 0xEF a \<and> between 0x80 0xBF b))
           \<and> between 0x80 0xBF c \<and> wellFormedUTF8 (d # s)
      else ((byte a = 0xF0 \<and> between 0x90 0xBF b) \<or> (between 0xF1 0xF3 a \<and> between 0x80 0xBF b)
            \<or> (byte a = 0xF4 \<and> between 0x80 0x8F b))
           \<and> between 0x80 0xBF c \<and> between 0x80 0xBF d \<and> wellFormedUTF8 s)"

datatype jsnum = NaN | Num int | NegZero | PosInfinity | NegInfinity

definition whiteSpaceCodes :: "string list" where
  "whiteSpaceCodes =
     [[CHR 0x09], [CHR 0x0A], [CHR 0x0B], [CHR 0x0C], [CHR 0x0D], [CHR 0x20],
      [CHR 0xC2, CHR 0xA0],
      [CHR 0xE1, CHR 0x9A, CHR 0x80],
      [CHR 0xE2, CHR 0x80, CHR 0x80], [CHR 0xE2, CHR 0x80, CHR 0x81],
      [CHR 0xE2, CHR 0x80, CHR 0x82], [CHR 0xE2, CHR 0x80, CHR 0x83],
      [CHR 0xE2, CHR 0x80, CHR 0x84], [CHR 0xE2, CHR 0x80, CHR 0x85],
      [CHR 0xE2, CHR 0x80, CHR 0x86], [CHR 0xE2, CHR 0x80, CHR 0x87],
      [CHR 0xE2, CHR 0x80, CHR 0x88], [CHR 0xE2, CHR 0x80, CHR 0x89],
      [CHR 0xE2, CHR 0x80, CHR 0x8A],
      [CHR 0xE2, CHR 0x80, CHR 0xA8], [CHR 0xE2, CHR 0x80, CHR 0xA9],
      [CHR 0xE2, CHR 0x80, CHR 0xAF],
      [CHR 0xE2, CHR 0x81, CHR 0x9F],
      [CHR 0xE3, CHR 0x80, CHR 0x80],
      [CHR 0xEF, CHR 0xBB, CHR 0xBF]]"

text \<open>The length of the white space code a string starts with, 0 when it starts with none.\<close>

definition whiteSpacePrefix :: "string \<Rightarrow> nat" where
  "whiteSpacePrefix s =
     (case filter (\<lambda>code. take (length code) s = code) whiteSpaceCodes of
        [] \<Rightarrow> 0
      | code # _ \<Rightarrow> length code)"

fun skipWhiteSpace :: "string \<Rightarrow> string" where
  "skipWhiteSpace [] = []"
| "skipWhiteSpace (c # cs) =
     (case whiteSpacePrefix (c # cs) of
        0 \<Rightarrow> c # cs
      | Suc n \<Rightarrow> skipWhiteSpace (drop n cs))"

definition isDigit :: "char \<Rightarrow> bool" where
  "isDigit c = (c \<in> set ''0123456789'')"

definition digitVal :: "char \<Rightarrow> nat" where
  "digitVal c = length (takeWhile (\<lambda>d. d \<noteq> c) ''0123456789'')"

definition digitChar :: "nat \<Rightarrow> char" where
  "digitChar d = ''0123456789'' ! (d mod 10)"

definition digitsValue :: "string \<Rightarrow> nat" where
  "digitsValue ds = foldl (\<lambda>acc c. acc * 10 + digitVal c) 0 ds"

fun bitLength :: "nat \<Rightarrow> nat" where
  "bitLength n = (if n = 0 then 0 else Suc (bitLength (n div 2)))"

text \<open>
  The double nearest to a natural number, \<open>None\<close> standing for the infinity: the 53
  leading bits are kept, the rest rounds them to nearest, a tie to the even one.
\<close>

definition roundToDouble :: "nat \<Rightarrow> nat option" where
  "roundToDouble m =
     (if m \<le> 2 ^ 53 then Some m
      else let e = bitLength m - 53;
               q = m div 2 ^ e;
               r = m mod 2 ^ e;
               half = 2 ^ (e - 1);
               q' = (if half < r \<or> (r = half \<and> odd q) then q + 1 else q);
               v = q' * 2 ^ e
           in if v < 2 ^ 1024 then Some v else None)"

definition parseInt10 :: "string \<Rightarrow> jsnum" where
  "parseInt10 inputString =
     (let S = skipWhiteSpace inputString;
          negative = (S \<noteq> [] \<and> hd S = CHR ''-'');
          S' = (if S \<noteq> [] \<and> (hd S = CHR ''+'' \<or> hd S = CHR ''-'') then tl S else S);
          Z = takeWhile isDigit S'
      in if Z = [] then NaN
         else (case roundToDouble (digitsValue Z) of
                 None \<Rightarrow> (if negative then NegInfinity else PosInfinity)
               | Some mathInt \<Rightarrow>
                   if mathInt = 0 then (if negative then NegZero else Num 0)
                   else Num (if negative then - int mathInt else int mathInt)))"

text \<open>The decimal rendering of an integer, as the store keeps a counter.\<close>

fun digitsOf :: "nat \<Rightarrow> string" where
  "digitsOf n = (if n < 10 then [digitChar n] else digitsOf (n div 10) @ [digitChar (n mod 10)])"

definition intToString :: "int \<Rightarrow> string" where
  "intToString i = (if i < 0 then CHR ''-'' # digitsOf (nat (- i)) else digitsOf (nat i))"

text \<open>
  The store reads a counter strictly: only the canonical decimal rendering of an integer
  is a number to it.
\<close>

definition string2ll :: "string \<Rightarrow> int option" where
  "string2ll s =
     (let neg = (s \<noteq> [] \<and> hd s = CHR ''-'');
          ds = (if neg then tl s else s);
          v = (if neg then - int (digitsValue ds) else int (digitsValue ds))
      in if ds \<noteq> [] \<and> list_all isDigit ds \<and> intToString v = s then Some v else None)"

section \<open>The key-value store\<close>

text \<open>
  Modelled from the spec: the key-value transport, that is the client library the source
  imports and the store behind it, neither of which is in the repository. Section 6 of the
  specification lists its primitives: hash-get, hash-set, hash-get-all, hash-increment-by,
  hash-delete, key-exists, key-delete, key-expire, ping, and a batch of queued commands,
  over two independent logical databases. Each primitive behaves as the command of the
  store that the client library sends for it.

  The model keeps the two databases of hashes, the expiry assigned to each key, and the
  list of requests issued so far. A key exists exactly when its hash has a field. Time
  does not pass in the model: \<open>ttl\<close> holds the seconds given to the last
  \<^verbatim>\<open>expire\<close>. Counters are unbounded integers, kept as decimal text. A request
  listed in \<open>fails\<close> is rejected by the transport and leaves the databases as they
  were; any other request is answered.
\<close>

type_synonym hash = "string \<rightharpoonup> string"

record db =
  hashes :: "string \<Rightarrow> hash"
  ttl :: "string \<rightharpoonup> nat"

datatype client = Ops | Metrics

datatype queued =
    QHSet string string string
  | QHIncrBy string "string option" int

datatype command =
    Ping
  | HGet string string
  | Exists string
  | HSet string string string
  | Expire string nat
  | HIncrBy string "string option" int
  | Del "string list"
  | HGetAll string
  | HDel string string
  | Quit
  | Exec "queued list"

datatype error =
    Error string
  | TypeError string
  | SyntaxError string
  | ReplyError string
  | TransportError

record redis =
  opsDb :: db
  metricsDb :: db
  issued :: "(client \<times> command) list"
  fails :: "client \<times> command \<Rightarrow> bool"

definition keyExists :: "db \<Rightarrow> string \<Rightarrow> bool" where
  "keyExists d k = (hashes d k \<noteq> Map.empty)"

text \<open>
  An argument that is \<^verbatim>\<open>null\<close> at run time, where the source declares a string,
  goes to the store as the empty string: the client library converts it so.
\<close>

definition toArg :: "string option \<Rightarrow> string" where
  "toArg a = (case a of None \<Rightarrow> [] | Some s \<Rightarrow> s)"

definition db_hset :: "string \<Rightarrow> string \<Rightarrow> string \<Rightarrow> db \<Rightarrow> (error + int) \<times> db" where
  "db_hset k f v d =
     (Inr (if hashes d k f = None then 1 else 0),
      d\<lparr>hashes := (hashes d)(k := (hashes d k)(f \<mapsto> v))\<rparr>)"

text \<open>A counter reads as 0 while its field is absent, and as nothing when it holds no integer.\<close>

definition counter :: "db \<Rightarrow> string \<Rightarrow> string \<Rightarrow> int option" where
  "counter d k f = (case hashes d k f of None \<Rightarrow> Some 0 | Some v \<Rightarrow> string2ll v)"

definition db_hincrby :: "string \<Rightarrow> string \<Rightarrow> int \<Rightarrow> db \<Rightarrow> (error + int) \<times> db" where
  "db_hincrby k f delta d =
     (case counter d k f of
        None \<Rightarrow> (Inl (ReplyError ''ERR hash value is not an integer''), d)
      | Some n \<Rightarrow>
          (Inr (n + delta),
           d\<lparr>hashes := (hashes d)(k := (hashes d k)(f \<mapsto> intToString (n + delta)))\<rparr>))"

definition db_expire :: "string \<Rightarrow> nat \<Rightarrow> db \<Rightarrow> (error + int) \<times> db" where
  "db_expire k seconds d =
     (if keyExists d k then (Inr 1, d\<lparr>ttl := (ttl d)(k \<mapsto> seconds)\<rparr>) else (Inr 0, d))"

definition db_delKey :: "string \<Rightarrow> db \<Rightarrow> db" where
  "db_delKey k d = d\<lparr>hashes := (hashes d)(k := Map.empty), ttl := (ttl d)(k := None)\<rparr>"

fun db_del :: "string list \<Rightarrow> db \<Rightarrow> int \<times> db" where
  "db_del [] d = (0, d)"
| "db_del (k # ks) d =
     (case db_del ks (db_delKey k d) of
        (n, d') \<Rightarrow> ((if keyExists d k then 1 else 0) + n, d'))"

definition db_hdel :: "string \<Rightarrow> string \<Rightarrow> db \<Rightarrow> (error + int) \<times> db" where
  "db_hdel k f d =
     (let h = (hashes d k)(f := None)
      in (Inr (if hashes d k f = None then 0 else 1),
          d\<lparr>hashes := (hashes d)(k := h),
            ttl := (if h = Map.empty then (ttl d)(k := None) else ttl d)\<rparr>))"

definition runQueued :: "queued \<Rightarrow> db \<Rightarrow> (error + int) \<times> db" where
  "runQueued q d =
     (case q of
        QHSet k f v \<Rightarrow> db_hset k f v d
      | QHIncrBy k f delta \<Rightarrow> db_hincrby k (toArg f) delta d)"

text \<open>
  The batch of the transport. The store runs the queued commands in order, as one
  request, and answers with one reply for each: a command that fails leaves its error in
  its reply, and neither stops the commands after it nor undoes the ones before it.
\<close>

fun runBatch :: "queued list \<Rightarrow> db \<Rightarrow> (error + int) list \<times> db" where
  "runBatch [] d = ([], d)"
| "runBatch (q # qs) d =
     (case runQueued q d of
        (r, d1) \<Rightarrow> (case runBatch qs d1 of (rs, d2) \<Rightarrow> (r # rs, d2)))"

text \<open>
  What a batch of increments adds to the counter \<open>f\<close> of the hash \<open>k\<close>, and whether a
  batch holds increments only.
\<close>

fun batchDelta :: "queued list \<Rightarrow> string \<Rightarrow> string \<Rightarrow> int" where
  "batchDelta [] k f = 0"
| "batchDelta (QHSet _ _ _ # qs) k f = batchDelta qs k f"
| "batchDelta (QHIncrBy k' f' delta # qs) k f =
     (if k = k' \<and> f = toArg f' then delta else 0) + batchDelta qs k f"

fun onlyIncrements :: "queued list \<Rightarrow> bool" where
  "onlyIncrements [] = True"
| "onlyIncrements (QHSet _ _ _ # qs) = False"
| "onlyIncrements (QHIncrBy _ _ _ # qs) = onlyIncrements qs"

fun touches :: "queued list \<Rightarrow> string \<Rightarrow> string \<Rightarrow> bool" where
  "touches [] k f = False"
| "touches (QHSet k' f' _ # qs) k f = ((k = k' \<and> f = f') \<or> touches qs k f)"
| "touches (QHIncrBy k' f' _ # qs) k f = ((k = k' \<and> f = toArg f') \<or> touches qs k f)"

definition emptyDb :: db where
  "emptyDb = \<lparr>hashes = (\<lambda>_. Map.empty), ttl = Map.empty\<rparr>"

definition emptyStore :: redis where
  "emptyStore = \<lparr>opsDb = emptyDb, metricsDb = emptyDb, issued = [], fails = (\<lambda>_. False)\<rparr>"

definition getDb :: "client \<Rightarrow> redis \<Rightarrow> db" where
  "getDb c w = (case c of Ops \<Rightarrow> opsDb w | Metrics \<Rightarrow> metricsDb w)"

definition putDb :: "client \<Rightarrow> db \<Rightarrow> redis \<Rightarrow> redis" where
  "putDb c d w = (case c of Ops \<Rightarrow> w\<lparr>opsDb := d\<rparr> | Metrics \<Rightarrow> w\<lparr>metricsDb := d\<rparr>)"

definition send ::
  "client \<Rightarrow> command \<Rightarrow> (db \<Rightarrow> (error + 'a) \<times> db) \<Rightarrow> redis \<Rightarrow> (error + 'a) \<times> redis" where
  "send c cmd run w =
     (let w1 = w\<lparr>issued := issued w @ [(c, cmd)]\<rparr>
      in if fails w (c, cmd) then (Inl TransportError, w1)
         else (case run (getDb c w) of (r, d') \<Rightarrow> (r, putDb c d' w1)))"

text \<open>The methods of a client, one per primitive the source calls.\<close>

definition ping :: "client \<Rightarrow> redis \<Rightarrow> (error + string) \<times> redis" where
  "ping c = send c Ping (\<lambda>d. (Inr ''PONG'', d))"

definition quit :: "client \<Rightarrow> redis \<Rightarrow> (error + string) \<times> redis" where
  "quit c = send c Quit (\<lambda>d. (Inr ''OK'', d))"

definition hget :: "client \<Rightarrow> string \<Rightarrow> string \<Rightarrow> redis \<Rightarrow> (error + string option) \<times> redis" where
  "hget c k f = send c (HGet k f) (\<lambda>d. (Inr (hashes d k f), d))"

definition hgetall :: "client \<Rightarrow> string \<Rightarrow> redis \<Rightarrow> (error + hash) \<times> redis" where
  "hgetall c k = send c (HGetAll k) (\<lambda>d. (Inr (hashes d k), d))"

definition exists :: "client \<Rightarrow> string \<Rightarrow> redis \<Rightarrow> (error + int) \<times> redis" where
  "exists c k = send c (Exists k) (\<lambda>d. (Inr (if keyExists d k then 1 else 0), d))"

definition hset :: "client \<Rightarrow> string \<Rightarrow> string \<Rightarrow> string \<Rightarrow> redis \<Rightarrow> (error + int) \<times> redis" where
  "hset c k f v = send c (HSet k f v) (db_hset k f v)"

definition expire :: "client \<Rightarrow> string \<Rightarrow> nat \<Rightarrow> redis \<Rightarrow> (error + int) \<times> redis" where
  "expire c k seconds = send c (Expire k seconds) (db_expire k seconds)"

definition hincrby ::
  "client \<Rightarrow> string \<Rightarrow> string option \<Rightarrow> int \<Rightarrow> redis \<Rightarrow> (error + int) \<times> redis" where
  "hincrby c k f delta = send c (HIncrBy k f delta) (db_hincrby k (toArg f) delta)"

definition del :: "client \<Rightarrow> string list \<Rightarrow> redis \<Rightarrow> (error + int) \<times> redis" where
  "del c ks = send c (Del ks) (\<lambda>d. case db_del ks d of (n, d') \<Rightarrow> (Inr n, d'))"

definition hdel :: "client \<Rightarrow> string \<Rightarrow> string \<Rightarrow> redis \<Rightarrow> (error + int) \<times> redis" where
  "hdel c k f = send c (HDel k f) (db_hdel k f)"

definition exec ::
  "client \<Rightarrow> queued list \<Rightarrow> redis \<Rightarrow> (error + (error + int) list) \<times> redis" where
  "exec c multi =
     send c (Exec multi) (\<lambda>d. case runBatch multi d of (replies, d') \<Rightarrow> (Inr replies, d'))"

section \<open>Requests of several clients\<close>

text \<open>
  The store takes one request at a time, whoever sends it, and a batch is one request.
  \<open>storeEffect\<close> is what a request does to the database it addresses. A schedule is the
  order in which the store receives the requests of an operation and the reads of another
  client, each read being a \<^verbatim>\<open>hgetall\<close> of a key of the metrics database;
  \<open>observations\<close> are the hashes those reads return.
\<close>

fun storeEffect :: "command \<Rightarrow> db \<Rightarrow> db" where
  "storeEffect (HSet k f v) d = snd (db_hset k f v d)"
| "storeEffect (Expire k seconds) d = snd (db_expire k seconds d)"
| "storeEffect (HIncrBy k f delta) d = snd (db_hincrby k (toArg f) delta d)"
| "storeEffect (Del ks) d = snd (db_del ks d)"
| "storeEffect (HDel k f) d = snd (db_hdel k f d)"
| "storeEffect (Exec multi) d = snd (runBatch multi d)"
| "storeEffect Ping d = d"
| "storeEffect (HGet k f) d = d"
| "storeEffect (Exists k) d = d"
| "storeEffect (HGetAll k) d = d"
| "storeEffect Quit d = d"

datatype event = Request client command | Read string

fun observations :: "event list \<Rightarrow> redis \<Rightarrow> hash list" where
  "observations [] w = []"
| "observations (Request c cmd # es) w =
     observations es
       (if fails w (c, cmd) then w else putDb c (storeEffect cmd (getDb c w)) w)"
| "observations (Read k # es) w = hashes (metricsDb w) k # observations es w"

section \<open>Promises\<close>

text \<open>
  An operation of the manager is a function from the state of the store to an outcome and
  the next state: \<open>Inr\<close> a fulfilled promise, \<open>Inl\<close> a rejected one (or an exception
  thrown in an \<^verbatim>\<open>async\<close> function). \<open>promiseAll\<close> is \<^verbatim>\<open>Q.all\<close> and
  \<^verbatim>\<open>Promise.all\<close> on two requests that have both been started: both are issued, and
  the first rejection in the order of the array is the outcome.
\<close>

type_synonym 'a promise = "redis \<Rightarrow> (error + 'a) \<times> redis"

definition resolve :: "'a \<Rightarrow> 'a promise" where
  "resolve v w = (Inr v, w)"

definition reject :: "error \<Rightarrow> 'a promise" where
  "reject err w = (Inl err, w)"

definition await :: "'a promise \<Rightarrow> ('a \<Rightarrow> 'b promise) \<Rightarrow> 'b promise" where
  "await p k w = (case p w of (Inl err, w') \<Rightarrow> (Inl err, w') | (Inr v, w') \<Rightarrow> k v w')"

definition promiseAll :: "'a promise \<Rightarrow> 'b promise \<Rightarrow> ('a \<times> 'b) promise" where
  "promiseAll p q w =
     (case p w of
        (r1, w1) \<Rightarrow>
          (case q w1 of
             (r2, w2) \<Rightarrow>
               (case r1 of
                  Inl err \<Rightarrow> (Inl err, w2)
                | Inr a \<Rightarrow> (case r2 of Inl err \<Rightarrow> (Inl err, w2) | Inr b \<Rightarrow> (Inr (a, b), w2)))))"

section \<open>\<open>RedisManager\<close> of \<^verbatim>\<open>src/api/script/redis-manager.ts\<close> (Q promises)\<close>

text \<open>
  \<^verbatim>\<open>JSON.stringify\<close> and \<^verbatim>\<open>JSON.parse\<close> are built into the language; the operations
  that call them take them as parameters, each able to throw. \<open>isEnabled\<close> is the private
  flag of the manager; the constructor creates the two clients it talks to, \<open>Ops\<close> for
  cached responses and \<open>Metrics\<close> (database 1) for counters. \<open>close\<close> tests the clients
  themselves, so it takes them as optional values.
\<close>

record 'b CacheableResponse =
  statusCode :: int
  body :: 'b

text \<open>
  \<open>DeploymentMetrics\<close> is a plain object. The loop of \<open>getMetricsWithDeploymentKey\<close>
  assigns \<^verbatim>\<open>parsed[key] = parseInt(rawMetrics[key], 10)\<close> for every key of the reply; an
  assignment of a number to the key \<open>__proto__\<close> of an object literal creates no
  property, so that one field is never part of the result.
\<close>

type_synonym DeploymentMetrics = "string \<rightharpoonup> jsnum"

definition DEFAULT_EXPIRY :: nat where
  "DEFAULT_EXPIRY = 3600"

definition checkHealth :: "bool \<Rightarrow> unit promise" where
  "checkHealth isEnabled w =
     (if \<not> isEnabled then reject (Error ''Redis manager is not enabled'') w
      else case promiseAll (ping Ops) (ping Metrics) w of
             (Inl err, w') \<Rightarrow> reject err w'
           | (Inr _, w') \<Rightarrow> resolve () w')"

definition getCachedResponse ::
  "(string \<Rightarrow> error + 'b CacheableResponse) \<Rightarrow> bool \<Rightarrow> string \<Rightarrow> string
     \<Rightarrow> 'b CacheableResponse option promise" where
  "getCachedResponse JSON_parse isEnabled expiryKey url w =
     (if \<not> isEnabled then resolve None w
      else case hget Ops expiryKey url w of
             (Inl err, w') \<Rightarrow> reject err w'
           | (Inr serialized, w') \<Rightarrow>
               (if truthy serialized
                then (case JSON_parse (the serialized) of
                        Inr response \<Rightarrow> resolve (Some response) w'
                      | Inl err \<Rightarrow> reject err w')
                else resolve None w'))"

definition setCachedResponse ::
  "('b CacheableResponse \<Rightarrow> error + string) \<Rightarrow> bool \<Rightarrow> string \<Rightarrow> string
     \<Rightarrow> 'b CacheableResponse \<Rightarrow> unit promise" where
  "setCachedResponse JSON_stringify isEnabled expiryKey url response w =
     (if \<not> isEnabled then resolve () w
      else case JSON_stringify response of
             Inl err \<Rightarrow> reject err w
           | Inr serialized \<Rightarrow>
               (case exists Ops expiryKey w of
                  (Inl err, w1) \<Rightarrow> reject err w1
                | (Inr n, w1) \<Rightarrow>
                    (let isNewKey = \<not> (n \<noteq> 0)
                     in case hset Ops expiryKey url serialized w1 of
                          (Inl err, w2) \<Rightarrow> reject err w2
                        | (Inr _, w2) \<Rightarrow>
                            (if isNewKey
                             then (case expire Ops expiryKey DEFAULT_EXPIRY w2 of
                                     (Inl err, w3) \<Rightarrow> reject err w3
                                   | (Inr _, w3) \<Rightarrow> resolve () w3)
                             else resolve () w2))))"

definition incrementLabelStatusCount ::
  "bool \<Rightarrow> string \<Rightarrow> string \<Rightarrow> string \<Rightarrow> unit promise" where
  "incrementLabelStatusCount isEnabled deploymentKey label status w =
     (if \<not> isEnabled then resolve () w
      else let hash = getDeploymentKeyLabelsHash deploymentKey;
               field = getLabelStatusField label status
           in if \<not> truthy field then resolve () w
              else case hincrby Metrics hash field 1 w of
                     (Inl err, w') \<Rightarrow> reject err w'
                   | (Inr _, w') \<Rightarrow> resolve () w')"

definition clearMetricsForDeploymentKey :: "bool \<Rightarrow> string \<Rightarrow> unit promise" where
  "clearMetricsForDeploymentKey isEnabled deploymentKey w =
     (if \<not> isEnabled then resolve () w
      else case del Metrics [getDeploymentKeyLabelsHash deploymentKey,
                             getDeploymentKeyClientsHash deploymentKey] w of
             (Inl err, w') \<Rightarrow> reject err w'
           | (Inr _, w') \<Rightarrow> resolve () w')"

definition getMetricsWithDeploymentKey ::
  "bool \<Rightarrow> string \<Rightarrow> DeploymentMetrics option promise" where
  "getMetricsWithDeploymentKey isEnabled deploymentKey w =
     (if \<not> isEnabled then resolve None w
      else case hgetall Metrics (getDeploymentKeyLabelsHash deploymentKey) w of
             (Inl err, w') \<Rightarrow> reject err w'
           | (Inr rawMetrics, w') \<Rightarrow>
               (let parsed = (\<lambda>key. if key = ''__proto__'' then None
                                    else case rawMetrics key of
                                           None \<Rightarrow> None
                                         | Some v \<Rightarrow> Some (parseInt10 v))
                in resolve (Some parsed) w'))"

definition recordUpdate ::
  "bool \<Rightarrow> string \<Rightarrow> string \<Rightarrow> string option \<Rightarrow> string option \<Rightarrow> unit promise" where
  "recordUpdate isEnabled currentDeploymentKey currentLabel previousDeploymentKey previousLabel w =
     (if \<not> isEnabled then resolve () w
      else let currentHash = getDeploymentKeyLabelsHash currentDeploymentKey;
               multi = [QHIncrBy currentHash (getLabelActiveCountField currentLabel) 1,
                        QHIncrBy currentHash
                          (getLabelStatusField currentLabel DEPLOYMENT_SUCCEEDED) 1];
               multi = (if truthy previousDeploymentKey \<and> truthy previousLabel
                        then (let previousHash =
                                    getDeploymentKeyLabelsHash (the previousDeploymentKey)
                              in multi @ [QHIncrBy previousHash
                                            (getLabelActiveCountField (the previousLabel))
                                            (- 1)])
                        else multi)
           in case exec Metrics multi w of
                (Inl err, w') \<Rightarrow> reject err w'
              | (Inr results, w') \<Rightarrow> resolve () w')"

definition removeDeploymentKeyClientActiveLabel ::
  "bool \<Rightarrow> string \<Rightarrow> string \<Rightarrow> unit promise" where
  "removeDeploymentKeyClientActiveLabel isEnabled deploymentKey clientUniqueId w =
     (if \<not> isEnabled then resolve () w
      else case hdel Metrics (getDeploymentKeyClientsHash deploymentKey) clientUniqueId w of
             (Inl err, w') \<Rightarrow> reject err w'
           | (Inr _, w') \<Rightarrow> resolve () w')"

definition invalidateCache :: "bool \<Rightarrow> string \<Rightarrow> unit promise" where
  "invalidateCache isEnabled expiryKey w =
     (if \<not> isEnabled then resolve () w
      else case del Ops [expiryKey] w of
             (Inl err, w') \<Rightarrow> reject err w'
           | (Inr _, w') \<Rightarrow> resolve () w')"

definition close :: "client option \<Rightarrow> client option \<Rightarrow> unit promise" where
  "close opsClient metricsClient w =
     (case promiseAll
             (case opsClient of Some c \<Rightarrow> quit c | None \<Rightarrow> resolve [])
             (case metricsClient of Some c \<Rightarrow> quit c | None \<Rightarrow> resolve []) w of
        (Inl err, w') \<Rightarrow> reject err w'
      | (Inr _, w') \<Rightarrow> resolve () w')"

definition getCurrentActiveLabel ::
  "bool \<Rightarrow> string \<Rightarrow> string \<Rightarrow> string option promise" where
  "getCurrentActiveLabel isEnabled deploymentKey clientUniqueId w =
     (if \<not> isEnabled then resolve None w
      else hget Metrics (getDeploymentKeyClientsHash deploymentKey) clientUniqueId w)"

definition updateActiveAppForClient ::
  "bool \<Rightarrow> string \<Rightarrow> string \<Rightarrow> string \<Rightarrow> string option \<Rightarrow> unit promise" where
  "updateActiveAppForClient isEnabled deploymentKey clientUniqueId toLabel fromLabel w =
     (if \<not> isEnabled then resolve () w
      else let deploymentKeyClientsHash = getDeploymentKeyClientsHash deploymentKey;
               deploymentKeyLabelsHash = getDeploymentKeyLabelsHash deploymentKey;
               multi = [QHSet deploymentKeyClientsHash clientUniqueId toLabel,
                        QHIncrBy deploymentKeyLabelsHash (getLabelActiveCountField toLabel) 1];
               multi = (if truthy fromLabel
                        then multi @ [QHIncrBy deploymentKeyLabelsHash
                                        (getLabelActiveCountField (the fromLabel)) (- 1)]
                        else multi)
           in case exec Metrics multi w of
                (Inl err, w') \<Rightarrow> reject err w'
              | (Inr results, w') \<Rightarrow> resolve () w')"

section \<open>\<open>RedisManager\<close> of \<^verbatim>\<open>src/unnamed/part_000\<close> (async/await)\<close>

text \<open>
  The same class written with \<^verbatim>\<open>async\<close> functions: each \<^verbatim>\<open>await\<close> hands the
  fulfilled value to the rest of the body and lets a rejection leave the function. Here
  the constructor enables the manager, and creates the clients, only when the store is
  configured.
\<close>

definition checkHealth_async :: "bool \<Rightarrow> unit promise" where
  "checkHealth_async isEnabled =
     (if \<not> isEnabled then reject (Error ''Redis manager is not enabled'')
      else await (promiseAll (ping Ops) (ping Metrics)) (\<lambda>_. resolve ()))"

definition getCachedResponse_async ::
  "(string \<Rightarrow> error + 'b CacheableResponse) \<Rightarrow> bool \<Rightarrow> string \<Rightarrow> string
     \<Rightarrow> 'b CacheableResponse option promise" where
  "getCachedResponse_async JSON_parse isEnabled expiryKey url =
     (if \<not> isEnabled then resolve None
      else await (hget Ops expiryKey url)
             (\<lambda>serialized.
                if truthy serialized
                then (case JSON_parse (the serialized) of
                        Inl err \<Rightarrow> reject err
                      | Inr response \<Rightarrow> resolve (Some response))
                else resolve None))"

definition setCachedResponse_async ::
  "('b CacheableResponse \<Rightarrow> error + string) \<Rightarrow> bool \<Rightarrow> string \<Rightarrow> string
     \<Rightarrow> 'b CacheableResponse \<Rightarrow> unit promise" where
  "setCachedResponse_async JSON_stringify isEnabled expiryKey url response =
     (if \<not> isEnabled then resolve ()
      else case JSON_stringify response of
             Inl err \<Rightarrow> reject err
           | Inr serialized \<Rightarrow>
               await (exists Ops expiryKey)
                 (\<lambda>n. let isNewKey = \<not> (n \<noteq> 0)
                      in await (hset Ops expiryKey url serialized)
                           (\<lambda>_. if isNewKey
                                then await (expire Ops expiryKey DEFAULT_EXPIRY)
                                       (\<lambda>_. resolve ())
                                else resolve ())))"

definition incrementLabelStatusCount_async ::
  "bool \<Rightarrow> string \<Rightarrow> string \<Rightarrow> string \<Rightarrow> unit promise" where
  "incrementLabelStatusCount_async isEnabled deploymentKey label status =
     (if \<not> isEnabled then resolve ()
      else let hash = getDeploymentKeyLabelsHash deploymentKey;
               field = getLabelStatusField label status
           in if truthy field then await (hincrby Metrics hash field 1) (\<lambda>_. resolve ())
              else resolve ())"

definition clearMetricsForDeploymentKey_async :: "bool \<Rightarrow> string \<Rightarrow> unit promise" where
  "clearMetricsForDeploymentKey_async isEnabled deploymentKey =
     (if \<not> isEnabled then resolve ()
      else await (del Metrics [getDeploymentKeyLabelsHash deploymentKey,
                               getDeploymentKeyClientsHash deploymentKey])
             (\<lambda>_. resolve ()))"

definition getMetricsWithDeploymentKey_async ::
  "bool \<Rightarrow> string \<Rightarrow> DeploymentMetrics option promise" where
  "getMetricsWithDeploymentKey_async isEnabled deploymentKey =
     (if \<not> isEnabled then resolve None
      else await (hgetall Metrics (getDeploymentKeyLabelsHash deploymentKey))
             (\<lambda>rawMetrics.
                let parsed = (\<lambda>key. if key = ''__proto__'' then None
                                   else case rawMetrics key of
                                          None \<Rightarrow> None
                                        | Some v \<Rightarrow> Some (parseInt10 v))
                in resolve (Some parsed)))"

definition recordUpdate_async ::
  "bool \<Rightarrow> string \<Rightarrow> string \<Rightarrow> string option \<Rightarrow> string option \<Rightarrow> unit promise" where
  "recordUpdate_async isEnabled currentDeploymentKey currentLabel
       previousDeploymentKey previousLabel =
     (if \<not> isEnabled then resolve ()
      else let currentHash = getDeploymentKeyLabelsHash currentDeploymentKey;
               multi = [QHIncrBy currentHash (getLabelActiveCountField currentLabel) 1,
                        QHIncrBy currentHash
                          (getLabelStatusField currentLabel DEPLOYMENT_SUCCEEDED) 1];
               multi = (if truthy previousDeploymentKey \<and> truthy previousLabel
                        then (let previousHash =
                                    getDeploymentKeyLabelsHash (the previousDeploymentKey)
                              in multi @ [QHIncrBy previousHash
                                            (getLabelActiveCountField (the previousLabel))
                                            (- 1)])
                        else multi)
           in await (exec Metrics multi) (\<lambda>_. resolve ()))"

definition removeDeploymentKeyClientActiveLabel_async ::
  "bool \<Rightarrow> string \<Rightarrow> string \<Rightarrow> unit promise" where
  "removeDeploymentKeyClientActiveLabel_async isEnabled deploymentKey clientUniqueId =
     (if \<not> isEnabled then resolve ()
      else await (hdel Metrics (getDeploymentKeyClientsHash deploymentKey) clientUniqueId)
             (\<lambda>_. resolve ()))"

definition invalidateCache_async :: "bool \<Rightarrow> string \<Rightarrow> unit promise" where
  "invalidateCache_async isEnabled expiryKey =
     (if \<not> isEnabled then resolve ()
      else await (del Ops [expiryKey]) (\<lambda>_. resolve ()))"

definition close_async :: "client option \<Rightarrow> client option \<Rightarrow> unit promise" where
  "close_async opsClient metricsClient =
     await (case opsClient of Some c \<Rightarrow> quit c | None \<Rightarrow> resolve [])
       (\<lambda>_. await (case metricsClient of Some c \<Rightarrow> quit c | None \<Rightarrow> resolve [])
              (\<lambda>_. resolve ()))"

definition getCurrentActiveLabel_async ::
  "bool \<Rightarrow> string \<Rightarrow> string \<Rightarrow> string option promise" where
  "getCurrentActiveLabel_async isEnabled deploymentKey clientUniqueId =
     (if \<not> isEnabled then resolve None
      else hget Metrics (getDeploymentKeyClientsHash deploymentKey) clientUniqueId)"

definition updateActiveAppForClient_async ::
  "bool \<Rightarrow> string \<Rightarrow> string \<Rightarrow> string \<Rightarrow> string option \<Rightarrow> unit promise" where
  "updateActiveAppForClient_async isEnabled deploymentKey clientUniqueId toLabel fromLabel =
     (if \<not> isEnabled then resolve ()
      else let deploymentKeyClientsHash = getDeploymentKeyClientsHash deploymentKey;
               deploymentKeyLabelsHash = getDeploymentKeyLabelsHash deploymentKey;
               multi = [QHSet deploymentKeyClientsHash clientUniqueId toLabel,
                        QHIncrBy deploymentKeyLabelsHash (getLabelActiveCountField toLabel) 1];
               multi = (if truthy fromLabel
                        then multi @ [QHIncrBy deploymentKeyLabelsHash
                                        (getLabelActiveCountField (the fromLabel)) (- 1)]
                        else multi)
           in await (exec Metrics multi) (\<lambda>_. resolve ()))"

section \<open>A sample response\<close>

text \<open>
  One response and its JSON text, with the serializer and the parser restricted to them:
  concrete values for the two parameters when an operation is run on a concrete store.
\<close>

definition sampleResponse :: "string CacheableResponse" where
  "sampleResponse = \<lparr>statusCode = 200, body = ''ok''\<rparr>"

definition sampleText :: string where
  "sampleText = ''{\"statusCode\":200,\"body\":\"ok\"}''"

definition sampleStringify :: "string CacheableResponse \<Rightarrow> error + string" where
  "sampleStringify r =
     (if r = sampleResponse then Inr sampleText else Inl (TypeError ''not in the table''))"

definition sampleParse :: "string \<Rightarrow> error + string CacheableResponse" where
  "sampleParse s =
     (if s = sampleText then Inr sampleResponse else Inl (SyntaxError ''not in the table''))"

text \<open>The store whose only content is the labels hash \<open>h\<close> of one deployment key.\<close>

definition storeWithLabels :: "string \<Rightarrow> hash \<Rightarrow> redis" where
  "storeWithLabels deploymentKey h =
     emptyStore\<lparr>metricsDb :=
       emptyDb\<lparr>hashes := (\<lambda>_. Map.empty)(getDeploymentKeyLabelsHash deploymentKey := h)\<rparr>\<rparr>"

section \<open>Decimal rendering and parsing agree\<close>

lemma isDigit_digitChar: "isDigit (digitChar d)"
proof -
  have "d mod 10 = 0 \<or> d mod 10 = 1 \<or> d mod 10 = 2 \<or> d mod 10 = 3 \<or> d mod 10 = 4
      \<or> d mod 10 = 5 \<or> d mod 10 = 6 \<or> d mod 10 = 7 \<or> d mod 10 = 8 \<or> d mod 10 = 9"
    by arith
  then show ?thesis unfolding isDigit_def digitChar_def by auto
qed

lemma digitVal_digitChar: "digitVal (digitChar d) = d mod 10"
proof -
  have "d mod 10 = 0 \<or> d mod 10 = 1 \<or> d mod 10 = 2 \<or> d mod 10 = 3 \<or> d mod 10 = 4
      \<or> d mod 10 = 5 \<or> d mod 10 = 6 \<or> d mod 10 = 7 \<or> d mod 10 = 8 \<or> d mod 10 = 9"
    by arith
  then show ?thesis unfolding digitVal_def digitChar_def by auto
qed

declare digitsOf.simps [simp del]

lemma digitsOf_all_digits: "list_all isDigit (digitsOf n)"
  by (induction n rule: digitsOf.induct) (subst digitsOf.simps, simp add: isDigit_digitChar)

lemma digitsOf_nonempty: "digitsOf n \<noteq> []"
  by (subst digitsOf.simps) simp

lemma digitsValue_snoc: "digitsValue (ds @ [c]) = digitsValue ds * 10 + digitVal c"
  by (simp add: digitsValue_def)

lemma digitsValue_digitsOf: "digitsValue (digitsOf n) = n"
proof (induction n rule: digitsOf.induct)
  case (1 n)
  show ?case
  proof (cases "n < 10")
    case True
    then show ?thesis by (subst digitsOf.simps) (simp add: digitsValue_def digitVal_digitChar)
  next
    case False
    with 1 show ?thesis
      by (subst digitsOf.simps) (simp add: digitsValue_snoc digitVal_digitChar)
  qed
qed

lemma hd_digitsOf_digit: "isDigit (hd (digitsOf n))"
  using digitsOf_all_digits [of n] digitsOf_nonempty [of n]
  by (cases "digitsOf n") simp_all

lemma string2ll_intToString: "string2ll (intToString i) = Some i"
proof (cases "i < 0")
  case True
  then show ?thesis
    by (simp add: string2ll_def intToString_def digitsOf_nonempty digitsOf_all_digits
        digitsValue_digitsOf)
next
  case False
  have "hd (digitsOf (nat i)) \<noteq> CHR ''-''"
    using hd_digitsOf_digit [of "nat i"] by (auto simp: isDigit_def)
  with False show ?thesis
    by (simp add: string2ll_def intToString_def digitsOf_nonempty digitsOf_all_digits
        digitsValue_digitsOf Let_def)
qed

declare bitLength.simps [simp del]

lemma takeWhile_digitsOf_append:
  "rest = [] \<or> \<not> isDigit (hd rest) \<Longrightarrow> takeWhile isDigit (digitsOf n @ rest) = digitsOf n"
proof -
  assume r: "rest = [] \<or> \<not> isDigit (hd rest)"
  have all: "\<forall>c \<in> set (digitsOf n). isDigit c"
    using digitsOf_all_digits [of n] by (simp add: list_all_iff)
  have "takeWhile isDigit rest = []"
    using r by (cases rest) auto
  with all show ?thesis by (simp add: takeWhile_append2)
qed

lemma take_not_code: "code \<noteq> [] \<Longrightarrow> hd code \<noteq> c \<Longrightarrow> take (length code) (c # cs) \<noteq> code"
  by (cases code) simp_all

lemma whiteSpaceCodes_nonempty: "[] \<notin> set whiteSpaceCodes"
  by (simp add: whiteSpaceCodes_def)

lemma whiteSpacePrefix_other:
  assumes "c \<notin> hd ` set whiteSpaceCodes"
  shows "whiteSpacePrefix (c # cs) = 0"
proof -
  have "take (length code) (c # cs) \<noteq> code" if "code \<in> set whiteSpaceCodes" for code
  proof (rule take_not_code)
    show "code \<noteq> []" using that whiteSpaceCodes_nonempty by auto
    show "hd code \<noteq> c" using that assms by auto
  qed
  then have "filter (\<lambda>code. take (length code) (c # cs) = code) whiteSpaceCodes = []"
    by (simp add: filter_empty_conv)
  then show ?thesis by (simp add: whiteSpacePrefix_def)
qed

lemma whiteSpacePrefix_digit: "isDigit c \<Longrightarrow> whiteSpacePrefix (c # cs) = 0"
  by (rule whiteSpacePrefix_other) (auto simp: whiteSpaceCodes_def isDigit_def)

lemma whiteSpacePrefix_minus: "whiteSpacePrefix (CHR ''-'' # cs) = 0"
  by (rule whiteSpacePrefix_other) (simp add: whiteSpaceCodes_def)

lemma skipWhiteSpace_digit: "isDigit c \<Longrightarrow> skipWhiteSpace (c # cs) = c # cs"
  by (simp add: whiteSpacePrefix_digit)

lemma skipWhiteSpace_minus: "skipWhiteSpace (CHR ''-'' # cs) = CHR ''-'' # cs"
  by (simp add: whiteSpacePrefix_minus)

lemma skipWhiteSpace_subset: "set (skipWhiteSpace s) \<subseteq> set s"
proof (induction s rule: skipWhiteSpace.induct)
  case 1
  then show ?case by simp
next
  case (2 c cs)
  show ?case
  proof (cases "whiteSpacePrefix (c # cs)")
    case 0
    then show ?thesis by simp
  next
    case (Suc n)
    have "set (skipWhiteSpace (drop n cs)) \<subseteq> set (drop n cs)"
      using 2 Suc by simp
    also have "\<dots> \<subseteq> set cs" by (rule set_drop_subset)
    finally show ?thesis using Suc by auto
  qed
qed

lemma roundToDouble_exact: "m \<le> 2 ^ 53 \<Longrightarrow> roundToDouble m = Some m"
  by (simp add: roundToDouble_def)

lemma parseInt10_integer_prefix:
  assumes "\<bar>i\<bar> \<le> 2 ^ 53" and "rest = [] \<or> \<not> isDigit (hd rest)"
  shows "parseInt10 (intToString i @ rest) = Num i"
proof (cases "i < 0")
  case True
  have m: "nat (- i) \<le> 2 ^ 53" using assms(1) True by simp
  have pos: "nat (- i) \<noteq> 0" using True by simp
  from True show ?thesis
    by (simp add: parseInt10_def intToString_def skipWhiteSpace_minus
        takeWhile_digitsOf_append [OF assms(2)] digitsOf_nonempty digitsValue_digitsOf
        roundToDouble_exact [OF m] pos del: skipWhiteSpace.simps)
next
  case False
  obtain c cs where cs: "digitsOf (nat i) = c # cs"
    using digitsOf_nonempty [of "nat i"] by (cases "digitsOf (nat i)") auto
  have d: "isDigit c" using hd_digitsOf_digit [of "nat i"] cs by simp
  then have c: "c \<noteq> CHR ''-''" "c \<noteq> CHR ''+''"
    by (auto simp: isDigit_def)
  have sk: "skipWhiteSpace ((c # cs) @ rest) = (c # cs) @ rest"
    using skipWhiteSpace_digit [OF d] by simp
  have tw: "takeWhile isDigit ((c # cs) @ rest) = c # cs"
    using takeWhile_digitsOf_append [OF assms(2), of "nat i"] cs by simp
  have dv: "digitsValue (c # cs) = nat i"
    using digitsValue_digitsOf [of "nat i"] cs by simp
  have m: "nat i \<le> 2 ^ 53" using assms(1) False by simp
  from False c show ?thesis
    unfolding parseInt10_def intToString_def
    by (simp add: cs sk tw dv roundToDouble_exact [OF m] Let_def
        del: takeWhile.simps skipWhiteSpace.simps append.simps)
qed

lemma parseInt10_no_digit:
  assumes "\<forall>c \<in> set v. \<not> isDigit c"
  shows "parseInt10 v = NaN"
proof -
  define S where "S = skipWhiteSpace v"
  define S' where "S' = (if S \<noteq> [] \<and> (hd S = CHR ''+'' \<or> hd S = CHR ''-'') then tl S else S)"
  have "set S \<subseteq> set v" unfolding S_def by (rule skipWhiteSpace_subset)
  moreover have "set S' \<subseteq> set S"
    unfolding S'_def by (cases S) auto
  ultimately have "\<forall>c \<in> set S'. \<not> isDigit c" using assms by blast
  then have "takeWhile isDigit S' = []"
    by (cases S') auto
  then show ?thesis
    unfolding parseInt10_def S_def [symmetric] Let_def S'_def [symmetric] by simp
qed

section \<open>Key namespacing\<close>

text \<open>
  C5. Each of the three hash-key derivation functions (scope-hash key, labels-hash key,
  clients-hash key) is injective: two distinct deployment keys never derive the same key
  under the same function.
\<close>

theorem key_derivation_injective:
  "a \<noteq> b \<Longrightarrow>
     getDeploymentKeyHash a \<noteq> getDeploymentKeyHash b
   \<and> getDeploymentKeyLabelsHash a \<noteq> getDeploymentKeyLabelsHash b
   \<and> getDeploymentKeyClientsHash a \<noteq> getDeploymentKeyClientsHash b"
  by (simp add: getDeploymentKeyHash_def getDeploymentKeyLabelsHash_def
      getDeploymentKeyClientsHash_def)

text \<open>C5 at the deployment keys \<open>staging\<close> and \<open>production\<close>.\<close>

theorem key_derivation_injective_witness:
  "''staging'' \<noteq> ''production''
   \<and> getDeploymentKeyHash ''staging'' \<noteq> getDeploymentKeyHash ''production''
   \<and> getDeploymentKeyLabelsHash ''staging'' \<noteq> getDeploymentKeyLabelsHash ''production''
   \<and> getDeploymentKeyClientsHash ''staging'' \<noteq> getDeploymentKeyClientsHash ''production''"
  using key_derivation_injective [of "''staging''" "''production''"] by simp

text \<open>
  C9 as stated fails: the scope-hash key of \<open>Labels:s\<close> is \<open>deploymentKey:Labels:s\<close>,
  with a colon after \<open>deploymentKey\<close>, and the labels-hash key of \<open>s\<close> is
  \<open>deploymentKeyLabels:s\<close>; likewise for the clients-hash key.
\<close>

theorem key_ranges_overlap_counterexample:
  "getDeploymentKeyHash (''Labels:'' @ ''s'') = ''deploymentKey:Labels:s''
   \<and> getDeploymentKeyLabelsHash ''s'' = ''deploymentKeyLabels:s''
   \<and> getDeploymentKeyHash (''Labels:'' @ ''s'') \<noteq> getDeploymentKeyLabelsHash ''s''
   \<and> getDeploymentKeyHash (''Clients:'' @ ''s'') \<noteq> getDeploymentKeyClientsHash ''s''"
  by (simp add: getDeploymentKeyHash_def getDeploymentKeyLabelsHash_def
      getDeploymentKeyClientsHash_def)

text \<open>
  C9, amended. The ranges of the three key-derivation functions are pairwise disjoint:
  whatever the two deployment keys, two different derivation functions never yield the
  same store key.
\<close>

theorem key_ranges_disjoint:
  "getDeploymentKeyHash s \<noteq> getDeploymentKeyLabelsHash t
   \<and> getDeploymentKeyHash s \<noteq> getDeploymentKeyClientsHash t
   \<and> getDeploymentKeyLabelsHash s \<noteq> getDeploymentKeyClientsHash t"
  by (simp add: getDeploymentKeyHash_def getDeploymentKeyLabelsHash_def
      getDeploymentKeyClientsHash_def)

section \<open>The disabled manager\<close>

text \<open>
  C8. When the manager is disabled, every Cache Store and Metrics Ledger operation
  returns its default value (\<^verbatim>\<open>null\<close> for reads, success for writes) without raising
  and leaves the store, the list of issued requests included, as it was; \<open>checkHealth\<close>
  is the only operation that fails, with the error \<open>Redis manager is not enabled\<close>.
  The disabled manager has no client, and \<open>close\<close> then resolves as silently.
\<close>

theorem disabled_returns_defaults:
  "getCachedResponse_async JSON_parse False expiryKey url w = (Inr None, w)
   \<and> setCachedResponse_async JSON_stringify False expiryKey url response w = (Inr (), w)
   \<and> invalidateCache_async False expiryKey w = (Inr (), w)
   \<and> incrementLabelStatusCount_async False deploymentKey label status w = (Inr (), w)
   \<and> recordUpdate_async False deploymentKey label previousDeploymentKey previousLabel w
       = (Inr (), w)
   \<and> removeDeploymentKeyClientActiveLabel_async False deploymentKey clientUniqueId w
       = (Inr (), w)
   \<and> clearMetricsForDeploymentKey_async False deploymentKey w = (Inr (), w)
   \<and> getMetricsWithDeploymentKey_async False deploymentKey w = (Inr None, w)
   \<and> getCurrentActiveLabel_async False deploymentKey clientUniqueId w = (Inr None, w)
   \<and> updateActiveAppForClient_async False deploymentKey clientUniqueId label fromLabel w
       = (Inr (), w)
   \<and> close_async None None w = (Inr (), w)
   \<and> checkHealth_async False w = (Inl (Error ''Redis manager is not enabled''), w)"
  by (simp add: close_async_def await_def getCachedResponse_async_def setCachedResponse_async_def
      invalidateCache_async_def incrementLabelStatusCount_async_def recordUpdate_async_def
      removeDeploymentKeyClientActiveLabel_async_def clearMetricsForDeploymentKey_async_def
      getMetricsWithDeploymentKey_async_def getCurrentActiveLabel_async_def
      updateActiveAppForClient_async_def checkHealth_async_def resolve_def reject_def)

section \<open>Counters in the store\<close>

lemma counter_after_hincrby:
  "counter d k f = Some n \<Longrightarrow>
     db_hincrby k f delta d
       = (Inr (n + delta),
          d\<lparr>hashes := (hashes d)(k := (hashes d k)(f \<mapsto> intToString (n + delta)))\<rparr>)"
  by (simp add: db_hincrby_def)

lemma counter_unreadable_hincrby:
  "counter d k f = None \<Longrightarrow>
     db_hincrby k f delta d = (Inl (ReplyError ''ERR hash value is not an integer''), d)"
  by (simp add: db_hincrby_def)

lemma counter_update:
  "counter (d\<lparr>hashes := (hashes d)(k := (hashes d k)(f \<mapsto> intToString m))\<rparr>) k' f'
     = (if k' = k \<and> f' = f then Some m else counter d k' f')"
  by (simp add: counter_def string2ll_intToString)

section \<open>Status counters\<close>



section \<open>Batches of increments\<close>

lemma db_hincrby_counter:
  "counter (snd (db_hincrby k f delta d)) k' f' =
     (if k' = k \<and> f' = f then map_option (\<lambda>n. n + delta) (counter d k f)
      else counter d k' f')"
proof (cases "counter d k f")
  case None
  then show ?thesis by (simp add: counter_unreadable_hincrby)
next
  case (Some n)
  then show ?thesis by (simp add: counter_after_hincrby counter_update)
qed

lemma db_hincrby_frame:
  "ttl (snd (db_hincrby k f delta d)) = ttl d"
  "k' \<noteq> k \<or> f' \<noteq> f \<Longrightarrow> hashes (snd (db_hincrby k f delta d)) k' f' = hashes d k' f'"
  by (cases "counter d k f"; auto simp: counter_unreadable_hincrby counter_after_hincrby)+

lemma runBatch_increments:
  "onlyIncrements qs \<Longrightarrow>
     counter (snd (runBatch qs d)) k f = map_option (\<lambda>n. n + batchDelta qs k f) (counter d k f)
     \<and> ttl (snd (runBatch qs d)) = ttl d"
proof (induction qs arbitrary: d)
  case Nil
  then show ?case by (simp add: option.map_ident)
next
  case (Cons q qs)
  from Cons.prems obtain k1 f1 delta where q: "q = QHIncrBy k1 f1 delta"
    and rest: "onlyIncrements qs"
    by (cases q) auto
  define d1 where "d1 = snd (db_hincrby k1 (toArg f1) delta d)"
  have run: "snd (runBatch (q # qs) d) = snd (runBatch qs d1)"
    by (simp add: q runQueued_def d1_def split: prod.splits)
  have step: "counter d1 k f =
      (if k = k1 \<and> f = toArg f1 then map_option (\<lambda>n. n + delta) (counter d k1 (toArg f1))
       else counter d k f)" "ttl d1 = ttl d"
    unfolding d1_def by (rule db_hincrby_counter, rule db_hincrby_frame(1))
  show ?case
    unfolding run using Cons.IH [OF rest, of d1] step
    by (cases "counter d k f") (auto simp: q)
qed

lemma runBatch_frame:
  "onlyIncrements qs \<Longrightarrow> \<not> touches qs k f \<Longrightarrow>
     hashes (snd (runBatch qs d)) k f = hashes d k f"
proof (induction qs arbitrary: d)
  case Nil
  then show ?case by simp
next
  case (Cons q qs)
  from Cons.prems(1) obtain k1 f1 delta where q: "q = QHIncrBy k1 f1 delta"
    and rest: "onlyIncrements qs"
    by (cases q) auto
  from Cons.prems(2) have other: "k \<noteq> k1 \<or> f \<noteq> toArg f1" and untouched: "\<not> touches qs k f"
    by (auto simp: q)
  define d1 where "d1 = snd (db_hincrby k1 (toArg f1) delta d)"
  have run: "snd (runBatch (q # qs) d) = snd (runBatch qs d1)"
    by (simp add: q runQueued_def d1_def split: prod.splits)
  have "hashes d1 k f = hashes d k f"
    unfolding d1_def using other by (rule db_hincrby_frame(2))
  then show ?case
    unfolding run using Cons.IH [OF rest untouched, of d1] by simp
qed

lemma recordUpdate_async_eq:
  "recordUpdate_async isEnabled currentDeploymentKey currentLabel previousDeploymentKey
       previousLabel w
     = recordUpdate isEnabled currentDeploymentKey currentLabel previousDeploymentKey
         previousLabel w"
  by (simp add: recordUpdate_async_def recordUpdate_def await_def resolve_def reject_def
      Let_def split: prod.splits sum.splits)

lemma exec_outcome:
  "exec c multi w =
     (if fails w (c, Exec multi)
      then (Inl TransportError, w\<lparr>issued := issued w @ [(c, Exec multi)]\<rparr>)
      else (Inr (fst (runBatch multi (getDb c w))),
            putDb c (snd (runBatch multi (getDb c w)))
              (w\<lparr>issued := issued w @ [(c, Exec multi)]\<rparr>)))"
  by (simp add: exec_def send_def Let_def split: prod.splits)

section \<open>One request among the reads of another client\<close>

text \<open>
  \<open>storeEffect\<close> is the change each method of the client makes to its database. A
  schedule of one request and any reads places every read before the request or after it.
\<close>

lemma storeEffect_agrees:
  assumes "\<not> fails w (c, cmd)"
  shows "cmd = Ping \<Longrightarrow> getDb c (snd (ping c w)) = storeEffect cmd (getDb c w)"
    and "cmd = Quit \<Longrightarrow> getDb c (snd (quit c w)) = storeEffect cmd (getDb c w)"
    and "cmd = HGet k f \<Longrightarrow> getDb c (snd (hget c k f w)) = storeEffect cmd (getDb c w)"
    and "cmd = HGetAll k \<Longrightarrow> getDb c (snd (hgetall c k w)) = storeEffect cmd (getDb c w)"
    and "cmd = Exists k \<Longrightarrow> getDb c (snd (exists c k w)) = storeEffect cmd (getDb c w)"
    and "cmd = HSet k f v \<Longrightarrow> getDb c (snd (hset c k f v w)) = storeEffect cmd (getDb c w)"
    and "cmd = Expire k seconds \<Longrightarrow>
           getDb c (snd (expire c k seconds w)) = storeEffect cmd (getDb c w)"
    and "cmd = HIncrBy k field delta \<Longrightarrow>
           getDb c (snd (hincrby c k field delta w)) = storeEffect cmd (getDb c w)"
    and "cmd = Del ks \<Longrightarrow> getDb c (snd (del c ks w)) = storeEffect cmd (getDb c w)"
    and "cmd = HDel k f \<Longrightarrow> getDb c (snd (hdel c k f w)) = storeEffect cmd (getDb c w)"
    and "cmd = Exec multi \<Longrightarrow> getDb c (snd (exec c multi w)) = storeEffect cmd (getDb c w)"
  using assms
  by (cases c; simp add: ping_def quit_def hget_def hgetall_def exists_def hset_def expire_def
        hincrby_def del_def hdel_def exec_def send_def getDb_def putDb_def Let_def
        split: prod.splits)+

lemma shuffles_single:
  "zs \<in> shuffles [x] ys \<Longrightarrow> \<exists>ys1 ys2. ys = ys1 @ ys2 \<and> zs = ys1 @ x # ys2"
proof (induction ys arbitrary: zs)
  case Nil
  then show ?case by simp
next
  case (Cons y ys)
  from Cons.prems consider "zs = x # y # ys" | zs' where "zs = y # zs'" "zs' \<in> shuffles [x] ys"
    by (auto simp: shuffles.simps)
  then show ?case
  proof cases
    case 1
    then show ?thesis by (intro exI [of _ "[]"] exI [of _ "y # ys"]) simp
  next
    case 2
    from Cons.IH [OF 2(2)] obtain ys1 ys2 where "ys = ys1 @ ys2" "zs' = ys1 @ x # ys2"
      by blast
    with 2(1) show ?thesis
      by (intro exI [of _ "y # ys1"] exI [of _ ys2]) simp
  qed
qed

lemma observations_reads:
  "observations (map Read ks @ es) w = map (hashes (metricsDb w)) ks @ observations es w"
  by (induction ks) simp_all

lemma observations_single_request:
  assumes "schedule \<in> shuffles [Request c cmd] (map Read reads)"
  shows "list_all2
           (\<lambda>k h. h = hashes (metricsDb w) k
                 \<or> h = hashes (metricsDb (if fails w (c, cmd) then w
                                          else putDb c (storeEffect cmd (getDb c w)) w)) k)
           reads (observations schedule w)"
proof -
  let ?w' = "if fails w (c, cmd) then w else putDb c (storeEffect cmd (getDb c w)) w"
  from shuffles_single [OF assms] obtain es1 es2 where
    split: "map Read reads = es1 @ es2" and sched: "schedule = es1 @ Request c cmd # es2"
    by blast
  from split obtain r1 r2 where r: "reads = r1 @ r2" "es1 = map Read r1" "es2 = map Read r2"
    by (auto simp: map_eq_append_conv)
  have obs: "observations schedule w =
               map (hashes (metricsDb w)) r1 @ map (hashes (metricsDb ?w')) r2"
    using observations_reads [of r2 "[]" ?w']
    by (simp add: sched r observations_reads del: map_append)
  show ?thesis
    unfolding obs r(1)
    by (intro list_all2_appendI) (simp_all add: list_all2_map2 list_all2_same)
qed

text \<open>The definitions that evaluate an operation on a concrete store.\<close>

lemmas run_defs =
  exec_def send_def getDb_def putDb_def runQueued_def db_hincrby_def db_hset_def counter_def
  toArg_def emptyStore_def emptyDb_def resolve_def reject_def truthy_def Let_def
  getLabelActiveCountField_def getLabelStatusField_def isValidDeploymentStatus_def
  getDeploymentKeyLabelsHash_def getDeploymentKeyClientsHash_def
  DEPLOYMENT_SUCCEEDED_def DEPLOYMENT_FAILED_def DOWNLOADED_def ACTIVE_def
  intToString_def digitsOf.simps digitChar_def

section \<open>Recording a transition\<close>

text \<open>
  C1 as stated fails twice. With an empty current label, \<open>getLabelActiveCountField\<close>
  returns \<^verbatim>\<open>null\<close>, \<open>recordUpdate\<close> queues the first increment with that
  \<^verbatim>\<open>null\<close> field, and the batch adds 1 to the field the client sends for
  \<^verbatim>\<open>null\<close> (the empty name), not to the field \<open>:Active\<close>. And the batch is not
  all-or-nothing: with \<open>L1:Active\<close> of \<open>D1\<close> holding \<open>abc\<close>, the decrement fails
  inside the batch, the two increments on \<open>D2\<close> stay applied, and the call resolves,
  since \<open>recordUpdate\<close> does not look at the replies of the queued commands.
\<close>

theorem recordUpdate_claim_counterexample:
  "issued (snd (recordUpdate True ''D2'' [] (Some ''D1'') (Some ''L1'') emptyStore))
     = [(Metrics, Exec [QHIncrBy ''deploymentKeyLabels:D2'' None 1,
                        QHIncrBy ''deploymentKeyLabels:D2'' (Some '':DeploymentSucceeded'') 1,
                        QHIncrBy ''deploymentKeyLabels:D1'' (Some ''L1:Active'') (- 1)])]
   \<and> fst (recordUpdate True ''D2'' [] (Some ''D1'') (Some ''L1'') emptyStore) = Inr ()
   \<and> hashes (metricsDb (snd (recordUpdate True ''D2'' [] (Some ''D1'') (Some ''L1'')
                 emptyStore))) ''deploymentKeyLabels:D2'' '':Active'' = None
   \<and> hashes (metricsDb (snd (recordUpdate True ''D2'' [] (Some ''D1'') (Some ''L1'')
                 emptyStore))) ''deploymentKeyLabels:D2'' [] = Some ''1''
   \<and> fst (recordUpdate True ''D2'' ''L2'' (Some ''D1'') (Some ''L1'')
            (storeWithLabels ''D1'' [''L1:Active'' \<mapsto> ''abc''])) = Inr ()
   \<and> hashes (metricsDb (snd (recordUpdate True ''D2'' ''L2'' (Some ''D1'') (Some ''L1'')
                 (storeWithLabels ''D1'' [''L1:Active'' \<mapsto> ''abc'']))))
        ''deploymentKeyLabels:D2'' ''L2:Active'' = Some ''1''
   \<and> hashes (metricsDb (snd (recordUpdate True ''D2'' ''L2'' (Some ''D1'') (Some ''L1'')
                 (storeWithLabels ''D1'' [''L1:Active'' \<mapsto> ''abc'']))))
        ''deploymentKeyLabels:D2'' ''L2:DeploymentSucceeded'' = Some ''1''
   \<and> hashes (metricsDb (snd (recordUpdate True ''D2'' ''L2'' (Some ''D1'') (Some ''L1'')
                 (storeWithLabels ''D1'' [''L1:Active'' \<mapsto> ''abc'']))))
        ''deploymentKeyLabels:D1'' ''L1:Active'' = Some ''abc''"
  by (simp add: recordUpdate_def run_defs storeWithLabels_def string2ll_def isDigit_def)

text \<open>
  C1, amended. For every call of \<open>recordUpdate\<close> on the enabled manager with a
  non-empty current label and a previous pair given (deployment key and label both
  non-empty), on a store that accepts the request and in which the three counters hold
  integers (0 when the field is absent) within the 64-bit range of the store, the
  operation applies exactly three deltas as one batch: +1 on \<open>currentLabel:Active\<close> and
  +1 on \<open>currentLabel:DeploymentSucceeded\<close> in the current deployment's labels hash, and
  -1 on \<open>previousLabel:Active\<close> in the previous deployment's labels hash; no other field
  changes. The three increments are one request, so no concurrent reader observes a state
  in which only a proper subset of the deltas is applied: wherever the reads of another
  client fall among the requests of the operation, each of them returns the hash as it
  was before the call or as it is after it. Both source versions behave so.
\<close>

theorem recordUpdate_single_batch:
  assumes "currentLabel \<noteq> []" and "previousDeploymentKey \<noteq> []" and "previousLabel \<noteq> []"
    and "\<not> fails w (Metrics, Exec
              [QHIncrBy (getDeploymentKeyLabelsHash currentDeploymentKey)
                 (Some (currentLabel @ '':'' @ ACTIVE)) 1,
               QHIncrBy (getDeploymentKeyLabelsHash currentDeploymentKey)
                 (Some (currentLabel @ '':'' @ DEPLOYMENT_SUCCEEDED)) 1,
               QHIncrBy (getDeploymentKeyLabelsHash previousDeploymentKey)
                 (Some (previousLabel @ '':'' @ ACTIVE)) (- 1)])"
    and "counter (metricsDb w) (getDeploymentKeyLabelsHash currentDeploymentKey)
           (currentLabel @ '':'' @ ACTIVE) = Some a" and "\<bar>a\<bar> < 2 ^ 63 - 1"
    and "counter (metricsDb w) (getDeploymentKeyLabelsHash currentDeploymentKey)
           (currentLabel @ '':'' @ DEPLOYMENT_SUCCEEDED) = Some b" and "\<bar>b\<bar> < 2 ^ 63 - 1"
    and "counter (metricsDb w) (getDeploymentKeyLabelsHash previousDeploymentKey)
           (previousLabel @ '':'' @ ACTIVE) = Some c" and "\<bar>c\<bar> < 2 ^ 63 - 1"
  shows
    "case recordUpdate True currentDeploymentKey currentLabel
            (Some previousDeploymentKey) (Some previousLabel) w of
       (result, w') \<Rightarrow>
         result = Inr ()
         \<and> issued w' = issued w @
           [(Metrics, Exec
              [QHIncrBy (getDeploymentKeyLabelsHash currentDeploymentKey)
                 (Some (currentLabel @ '':'' @ ACTIVE)) 1,
               QHIncrBy (getDeploymentKeyLabelsHash currentDeploymentKey)
                 (Some (currentLabel @ '':'' @ DEPLOYMENT_SUCCEEDED)) 1,
               QHIncrBy (getDeploymentKeyLabelsHash previousDeploymentKey)
                 (Some (previousLabel @ '':'' @ ACTIVE)) (- 1)])]
         \<and> opsDb w' = opsDb w
         \<and> ttl (metricsDb w') = ttl (metricsDb w)
         \<and> (\<forall>k f. counter (metricsDb w') k f =
                    map_option
                      (\<lambda>n. n
                         + (if k = getDeploymentKeyLabelsHash currentDeploymentKey
                               \<and> f = currentLabel @ '':'' @ ACTIVE then 1 else 0)
                         + (if k = getDeploymentKeyLabelsHash currentDeploymentKey
                               \<and> f = currentLabel @ '':'' @ DEPLOYMENT_SUCCEEDED then 1 else 0)
                         - (if k = getDeploymentKeyLabelsHash previousDeploymentKey
                               \<and> f = previousLabel @ '':'' @ ACTIVE then 1 else 0))
                      (counter (metricsDb w) k f))
         \<and> (\<forall>k f.
               \<not> (k = getDeploymentKeyLabelsHash currentDeploymentKey
                    \<and> f = currentLabel @ '':'' @ ACTIVE)
               \<and> \<not> (k = getDeploymentKeyLabelsHash currentDeploymentKey
                    \<and> f = currentLabel @ '':'' @ DEPLOYMENT_SUCCEEDED)
               \<and> \<not> (k = getDeploymentKeyLabelsHash previousDeploymentKey
                    \<and> f = previousLabel @ '':'' @ ACTIVE) \<longrightarrow>
               hashes (metricsDb w') k f = hashes (metricsDb w) k f)
         \<and> (\<forall>reads.
               \<forall>schedule \<in> shuffles
                   [Request Metrics (Exec
              [QHIncrBy (getDeploymentKeyLabelsHash currentDeploymentKey)
                 (Some (currentLabel @ '':'' @ ACTIVE)) 1,
               QHIncrBy (getDeploymentKeyLabelsHash currentDeploymentKey)
                 (Some (currentLabel @ '':'' @ DEPLOYMENT_SUCCEEDED)) 1,
               QHIncrBy (getDeploymentKeyLabelsHash previousDeploymentKey)
                 (Some (previousLabel @ '':'' @ ACTIVE)) (- 1)])]
                   (map Read reads).
                 list_all2
                   (\<lambda>k h. h = hashes (metricsDb w) k \<or> h = hashes (metricsDb w') k)
                   reads (observations schedule w))
         \<and> recordUpdate_async True currentDeploymentKey currentLabel
               (Some previousDeploymentKey) (Some previousLabel) w = (result, w')"
proof -
  define batch where "batch =
     [QHIncrBy (getDeploymentKeyLabelsHash currentDeploymentKey)
                 (Some (currentLabel @ '':'' @ ACTIVE)) 1,
               QHIncrBy (getDeploymentKeyLabelsHash currentDeploymentKey)
                 (Some (currentLabel @ '':'' @ DEPLOYMENT_SUCCEEDED)) 1,
               QHIncrBy (getDeploymentKeyLabelsHash previousDeploymentKey)
                 (Some (previousLabel @ '':'' @ ACTIVE)) (- 1)]"
  define w' where "w' = putDb Metrics (snd (runBatch batch (metricsDb w)))
                          (w\<lparr>issued := issued w @ [(Metrics, Exec batch)]\<rparr>)"
  have valid: "isValidDeploymentStatus DEPLOYMENT_SUCCEEDED"
    by (simp add: isValidDeploymentStatus_def)
  have nofail: "\<not> fails w (Metrics, Exec batch)"
    using assms(4) by (simp add: batch_def)
  have run: "recordUpdate True currentDeploymentKey currentLabel
            (Some previousDeploymentKey) (Some previousLabel) w = (Inr (), w')"
    using assms(1-3) valid nofail [unfolded batch_def]
    by (simp add: recordUpdate_def w'_def batch_def getLabelActiveCountField_def
        getLabelStatusField_def truthy_def resolve_def reject_def Let_def exec_outcome
        getDb_def)
  have incr: "onlyIncrements batch" by (simp add: batch_def)
  have delta: "batchDelta batch k f =
      (if k = getDeploymentKeyLabelsHash currentDeploymentKey
            \<and> f = currentLabel @ '':'' @ ACTIVE then 1 else 0)
      + (if k = getDeploymentKeyLabelsHash currentDeploymentKey
            \<and> f = currentLabel @ '':'' @ DEPLOYMENT_SUCCEEDED then 1 else 0)
      - (if k = getDeploymentKeyLabelsHash previousDeploymentKey
            \<and> f = previousLabel @ '':'' @ ACTIVE then 1 else 0)" for k f
    by (simp add: batch_def toArg_def)
  have touched: "touches batch k f =
      ((k = getDeploymentKeyLabelsHash currentDeploymentKey
            \<and> f = currentLabel @ '':'' @ ACTIVE)
       \<or> (k = getDeploymentKeyLabelsHash currentDeploymentKey
            \<and> f = currentLabel @ '':'' @ DEPLOYMENT_SUCCEEDED)
       \<or> (k = getDeploymentKeyLabelsHash previousDeploymentKey
            \<and> f = previousLabel @ '':'' @ ACTIVE))" for k f
    by (simp add: batch_def toArg_def)
  have dbs: "opsDb w' = opsDb w" "metricsDb w' = snd (runBatch batch (metricsDb w))"
    "issued w' = issued w @ [(Metrics, Exec batch)]"
    by (simp_all add: w'_def putDb_def)
  have counters: "counter (metricsDb w') k f =
      map_option (\<lambda>n. n
            + (if k = getDeploymentKeyLabelsHash currentDeploymentKey
                  \<and> f = currentLabel @ '':'' @ ACTIVE then 1 else 0)
            + (if k = getDeploymentKeyLabelsHash currentDeploymentKey
                  \<and> f = currentLabel @ '':'' @ DEPLOYMENT_SUCCEEDED then 1 else 0)
            - (if k = getDeploymentKeyLabelsHash previousDeploymentKey
                  \<and> f = previousLabel @ '':'' @ ACTIVE then 1 else 0))
        (counter (metricsDb w) k f)" for k f
    using runBatch_increments [OF incr, of "metricsDb w" k f]
    by (simp add: dbs delta add.assoc)
  have ttls: "ttl (metricsDb w') = ttl (metricsDb w)"
    using runBatch_increments [OF incr, of "metricsDb w"] by (simp add: dbs)
  have frame: "hashes (metricsDb w') k f = hashes (metricsDb w) k f"
    if "\<not> (k = getDeploymentKeyLabelsHash currentDeploymentKey
              \<and> f = currentLabel @ '':'' @ ACTIVE)
        \<and> \<not> (k = getDeploymentKeyLabelsHash currentDeploymentKey
              \<and> f = currentLabel @ '':'' @ DEPLOYMENT_SUCCEEDED)
        \<and> \<not> (k = getDeploymentKeyLabelsHash previousDeploymentKey
              \<and> f = previousLabel @ '':'' @ ACTIVE)" for k f
  proof -
    have "\<not> touches batch k f" using that by (simp add: touched)
    then show ?thesis using runBatch_frame [OF incr] by (simp add: dbs)
  qed
  have after: "(if fails w (Metrics, Exec batch) then w
                else putDb Metrics (storeEffect (Exec batch) (getDb Metrics w)) w)
               = w'\<lparr>issued := issued w\<rparr>"
    using nofail by (simp add: w'_def putDb_def getDb_def)
  have readers: "list_all2 (\<lambda>k h. h = hashes (metricsDb w) k \<or> h = hashes (metricsDb w') k)
                   reads (observations schedule w)"
    if "schedule \<in> shuffles [Request Metrics (Exec batch)] (map Read reads)"
    for reads schedule
    using observations_single_request [OF that, of w] by (simp add: after)
  show ?thesis
    unfolding batch_def [symmetric] run recordUpdate_async_eq prod.case
  proof (intro conjI allI ballI impI)
    show "Inr () = Inr ()" by simp
    show "issued w' = issued w @ [(Metrics, Exec batch)]" by (rule dbs(3))
    show "opsDb w' = opsDb w" by (rule dbs(1))
    show "ttl (metricsDb w') = ttl (metricsDb w)" by (rule ttls)
    show "(Inr (), w') = (Inr (), w')" by simp
  qed (use counters frame readers in blast)+
qed

text \<open>
  C1, amended, on the empty store: the call resolves, \<open>L2:Active\<close> and
  \<open>L2:DeploymentSucceeded\<close> of \<open>D2\<close> read 1 and \<open>L1:Active\<close> of \<open>D1\<close> reads -1; a
  client that reads the labels hash of \<open>D2\<close> before and after the batch sees the empty
  hash, then the hash with both fields.
\<close>

theorem recordUpdate_single_batch_witness:
  "''L2'' \<noteq> [] \<and> ''D1'' \<noteq> [] \<and> ''L1'' \<noteq> []
   \<and> counter (metricsDb emptyStore) ''deploymentKeyLabels:D2'' ''L2:Active'' = Some 0
   \<and> counter (metricsDb emptyStore) ''deploymentKeyLabels:D2'' ''L2:DeploymentSucceeded''
       = Some 0
   \<and> counter (metricsDb emptyStore) ''deploymentKeyLabels:D1'' ''L1:Active'' = Some 0
   \<and> \<bar>0 :: int\<bar> < 2 ^ 63 - 1
   \<and> fst (recordUpdate True ''D2'' ''L2'' (Some ''D1'') (Some ''L1'') emptyStore) = Inr ()
   \<and> counter (metricsDb (snd (recordUpdate True ''D2'' ''L2'' (Some ''D1'') (Some ''L1'')
                  emptyStore))) ''deploymentKeyLabels:D2'' ''L2:Active'' = Some 1
   \<and> counter (metricsDb (snd (recordUpdate True ''D2'' ''L2'' (Some ''D1'') (Some ''L1'')
                  emptyStore))) ''deploymentKeyLabels:D2'' ''L2:DeploymentSucceeded'' = Some 1
   \<and> counter (metricsDb (snd (recordUpdate True ''D2'' ''L2'' (Some ''D1'') (Some ''L1'')
                  emptyStore))) ''deploymentKeyLabels:D1'' ''L1:Active'' = Some (- 1)
   \<and> [Read ''deploymentKeyLabels:D2'',
       Request Metrics (Exec [QHIncrBy ''deploymentKeyLabels:D2'' (Some ''L2:Active'') 1,
                              QHIncrBy ''deploymentKeyLabels:D2''
                                (Some ''L2:DeploymentSucceeded'') 1,
                              QHIncrBy ''deploymentKeyLabels:D1'' (Some ''L1:Active'') (- 1)]),
       Read ''deploymentKeyLabels:D2'']
      \<in> shuffles
          [Request Metrics (Exec [QHIncrBy ''deploymentKeyLabels:D2'' (Some ''L2:Active'') 1,
                                 QHIncrBy ''deploymentKeyLabels:D2''
                                   (Some ''L2:DeploymentSucceeded'') 1,
                                 QHIncrBy ''deploymentKeyLabels:D1'' (Some ''L1:Active'') (- 1)])]
          (map Read [''deploymentKeyLabels:D2'', ''deploymentKeyLabels:D2''])
   \<and> list_all2
        (\<lambda>k h. h = hashes (metricsDb emptyStore) k
              \<or> h = hashes (metricsDb (snd (recordUpdate True ''D2'' ''L2'' (Some ''D1'')
                                              (Some ''L1'') emptyStore))) k)
        [''deploymentKeyLabels:D2'', ''deploymentKeyLabels:D2'']
        (observations
           [Read ''deploymentKeyLabels:D2'',
            Request Metrics (Exec [QHIncrBy ''deploymentKeyLabels:D2'' (Some ''L2:Active'') 1,
                                   QHIncrBy ''deploymentKeyLabels:D2''
                                     (Some ''L2:DeploymentSucceeded'') 1,
                                   QHIncrBy ''deploymentKeyLabels:D1'' (Some ''L1:Active'')
                                     (- 1)]),
            Read ''deploymentKeyLabels:D2'']
           emptyStore)
   \<and> observations
        [Read ''deploymentKeyLabels:D2'',
         Request Metrics (Exec [QHIncrBy ''deploymentKeyLabels:D2'' (Some ''L2:Active'') 1,
                                QHIncrBy ''deploymentKeyLabels:D2''
                                  (Some ''L2:DeploymentSucceeded'') 1,
                                QHIncrBy ''deploymentKeyLabels:D1'' (Some ''L1:Active'') (- 1)]),
         Read ''deploymentKeyLabels:D2'']
        emptyStore
       = [Map.empty, [''L2:Active'' \<mapsto> ''1'', ''L2:DeploymentSucceeded'' \<mapsto> ''1'']]"
proof -
  let ?batch = "[QHIncrBy ''deploymentKeyLabels:D2'' (Some ''L2:Active'') 1,
                 QHIncrBy ''deploymentKeyLabels:D2'' (Some ''L2:DeploymentSucceeded'') 1,
                 QHIncrBy ''deploymentKeyLabels:D1'' (Some ''L1:Active'') (- 1)]"
  let ?schedule = "[Read ''deploymentKeyLabels:D2'', Request Metrics (Exec ?batch),
                    Read ''deploymentKeyLabels:D2'']"
  let ?reads = "[''deploymentKeyLabels:D2'', ''deploymentKeyLabels:D2'']"
  obtain result w' where
    r: "recordUpdate True ''D2'' ''L2'' (Some ''D1'') (Some ''L1'') emptyStore = (result, w')"
    by (cases "recordUpdate True ''D2'' ''L2'' (Some ''D1'') (Some ''L1'') emptyStore")
  have n: "''L2'' \<noteq> []" "''D1'' \<noteq> []" "''L1'' \<noteq> []"
    by simp_all
  have c: "counter (metricsDb emptyStore) k f = Some 0" for k f
    by (simp add: counter_def emptyStore_def emptyDb_def)
  have f: "\<not> fails emptyStore q" for q
    by (simp add: emptyStore_def)
  have small: "\<bar>0 :: int\<bar> < 2 ^ 63 - 1"
    by simp
  have names: "getDeploymentKeyLabelsHash ''D2'' = ''deploymentKeyLabels:D2''"
    "getDeploymentKeyLabelsHash ''D1'' = ''deploymentKeyLabels:D1''"
    "''L2'' @ '':'' @ ACTIVE = ''L2:Active''"
    "''L2'' @ '':'' @ DEPLOYMENT_SUCCEEDED = ''L2:DeploymentSucceeded''"
    "''L1'' @ '':'' @ ACTIVE = ''L1:Active''"
    by (simp_all add: getDeploymentKeyLabelsHash_def ACTIVE_def DEPLOYMENT_SUCCEEDED_def)
  have member: "?schedule \<in> shuffles [Request Metrics (Exec ?batch)] (map Read ?reads)"
    by (simp add: shuffles.simps)
  note t = recordUpdate_single_batch
             [where currentLabel = "''L2''" and previousDeploymentKey = "''D1''"
                and previousLabel = "''L1''" and currentDeploymentKey = "''D2''"
                and w = emptyStore and a = 0 and b = 0 and c = 0,
              OF n f c small c small c small, unfolded r prod.case names]
  from t have ok: "result = Inr ()"
    by (elim conjE)
  from t have counters:
    "\<forall>k f. counter (metricsDb w') k f =
        map_option
          (\<lambda>n. n + (if k = ''deploymentKeyLabels:D2'' \<and> f = ''L2:Active'' then 1 else 0)
                 + (if k = ''deploymentKeyLabels:D2'' \<and> f = ''L2:DeploymentSucceeded''
                    then 1 else 0)
                 - (if k = ''deploymentKeyLabels:D1'' \<and> f = ''L1:Active'' then 1 else 0))
          (counter (metricsDb emptyStore) k f)"
    by (elim conjE)
  from t have readers:
    "\<forall>reads. \<forall>schedule \<in> shuffles [Request Metrics (Exec ?batch)] (map Read reads).
       list_all2 (\<lambda>k h. h = hashes (metricsDb emptyStore) k \<or> h = hashes (metricsDb w') k)
         reads (observations schedule emptyStore)"
    by (elim conjE)
  have seen: "list_all2 (\<lambda>k h. h = hashes (metricsDb emptyStore) k
                              \<or> h = hashes (metricsDb w') k)
                ?reads (observations ?schedule emptyStore)"
    using readers [rule_format, of ?schedule ?reads] member by simp
  have obs: "observations ?schedule emptyStore
               = [Map.empty, [''L2:Active'' \<mapsto> ''1'', ''L2:DeploymentSucceeded'' \<mapsto> ''1'']]"
    by (simp add: run_defs)
  have vals: "counter (metricsDb w') ''deploymentKeyLabels:D2'' ''L2:Active'' = Some 1"
    "counter (metricsDb w') ''deploymentKeyLabels:D2'' ''L2:DeploymentSucceeded'' = Some 1"
    "counter (metricsDb w') ''deploymentKeyLabels:D1'' ''L1:Active'' = Some (- 1)"
    using counters by (simp_all add: c)
  show ?thesis
    using n c small ok vals member seen obs
    by (simp add: r del: observations.simps shuffles.simps list_all2_Cons)
qed

text \<open>
  C4. Invalid domain input is to be a silent no-op, and \<open>getLabelActiveCountField\<close>
  does return the invalid marker for an empty label, which \<open>incrementLabelStatusCount\<close>
  honours for its own field. \<open>recordUpdate\<close> does not test the marker: called with an
  empty current label and no previous pair on the empty store, it issues a batch of two
  increments and the labels hash of the deployment gains the fields
  \<open>:DeploymentSucceeded\<close> and the empty name, both at 1.
\<close>

theorem recordUpdate_empty_label_writes:
  "fst (recordUpdate True ''D'' [] None None emptyStore) = Inr ()
   \<and> issued (snd (recordUpdate True ''D'' [] None None emptyStore))
       = [(Metrics, Exec [QHIncrBy ''deploymentKeyLabels:D'' None 1,
                          QHIncrBy ''deploymentKeyLabels:D'' (Some '':DeploymentSucceeded'') 1])]
   \<and> hashes (metricsDb (snd (recordUpdate True ''D'' [] None None emptyStore)))
        ''deploymentKeyLabels:D'' '':DeploymentSucceeded'' = Some ''1''
   \<and> hashes (metricsDb (snd (recordUpdate True ''D'' [] None None emptyStore)))
        ''deploymentKeyLabels:D'' [] = Some ''1''
   \<and> getLabelActiveCountField [] = None
   \<and> incrementLabelStatusCount True ''D'' ''L'' ''bogus'' emptyStore = (Inr (), emptyStore)"
  by (simp add: recordUpdate_def incrementLabelStatusCount_def run_defs)

section \<open>The response cache\<close>

lemma setCachedResponse_async_eq:
  "setCachedResponse_async JSON_stringify isEnabled expiryKey url response w
     = setCachedResponse JSON_stringify isEnabled expiryKey url response w"
  by (simp add: setCachedResponse_async_def setCachedResponse_def await_def resolve_def
      reject_def Let_def split: prod.splits sum.splits)

lemma getCachedResponse_async_eq:
  "getCachedResponse_async JSON_parse isEnabled expiryKey url w
     = getCachedResponse JSON_parse isEnabled expiryKey url w"
  by (simp add: getCachedResponse_async_def getCachedResponse_def await_def resolve_def
      reject_def split: prod.splits sum.splits)

lemma setCachedResponse_keeps_fails:
  "fails (snd (setCachedResponse JSON_stringify isEnabled scopeKey url response w)) = fails w"
  by (simp add: setCachedResponse_def exists_def hset_def expire_def send_def putDb_def
      resolve_def reject_def Let_def split: prod.splits sum.splits client.splits)

text \<open>
  C3. On a store that accepts the requests, \<open>setCachedResponse\<close> writes the field
  whatever the scope key held, and applies the expiry of 3600 seconds to the scope key if
  and only if the key did not exist before this write: a new scope key gets exactly one
  \<^verbatim>\<open>expire\<close> request, and a write to a scope key that exists issues none and leaves
  its expiry as it was. After the write the key exists. Both source versions behave so.
\<close>

theorem setCachedResponse_expiry:
  assumes "JSON_stringify response = Inr serialized"
    and "\<not> fails w (Ops, Exists scopeKey)"
    and "\<not> fails w (Ops, HSet scopeKey url serialized)"
    and "\<not> fails w (Ops, Expire scopeKey 3600)"
  shows
    "case setCachedResponse JSON_stringify True scopeKey url response w of
       (result, w') \<Rightarrow>
         result = Inr ()
         \<and> hashes (opsDb w') =
             (hashes (opsDb w))(scopeKey := (hashes (opsDb w) scopeKey)(url \<mapsto> serialized))
         \<and> keyExists (opsDb w') scopeKey
         \<and> metricsDb w' = metricsDb w
         \<and> (if keyExists (opsDb w) scopeKey
             then issued w' = issued w @ [(Ops, Exists scopeKey),
                                          (Ops, HSet scopeKey url serialized)]
                  \<and> ttl (opsDb w') = ttl (opsDb w)
             else issued w' = issued w @ [(Ops, Exists scopeKey),
                                          (Ops, HSet scopeKey url serialized),
                                          (Ops, Expire scopeKey 3600)]
                  \<and> ttl (opsDb w') = (ttl (opsDb w))(scopeKey \<mapsto> 3600))
         \<and> setCachedResponse_async JSON_stringify True scopeKey url response w = (result, w')"
  using assms
  by (simp add: setCachedResponse_async_eq setCachedResponse_def exists_def hset_def
      expire_def send_def getDb_def putDb_def db_hset_def db_expire_def keyExists_def
      DEFAULT_EXPIRY_def resolve_def reject_def Let_def)

text \<open>
  C3 on the empty store: the first write to \<open>scope\<close> issues \<^verbatim>\<open>exists\<close>,
  \<^verbatim>\<open>hset\<close> and \<^verbatim>\<open>expire\<close> and sets the expiry to 3600; a second write issues
  \<^verbatim>\<open>exists\<close> and \<^verbatim>\<open>hset\<close> only and the expiry stays 3600.
\<close>

theorem setCachedResponse_expiry_witness:
  "sampleStringify sampleResponse = Inr sampleText
   \<and> fst (setCachedResponse sampleStringify True ''scope'' ''/a'' sampleResponse emptyStore)
       = Inr ()
   \<and> issued (snd (setCachedResponse sampleStringify True ''scope'' ''/a'' sampleResponse
                emptyStore))
       = [(Ops, Exists ''scope''), (Ops, HSet ''scope'' ''/a'' sampleText),
          (Ops, Expire ''scope'' 3600)]
   \<and> ttl (opsDb (snd (setCachedResponse sampleStringify True ''scope'' ''/a'' sampleResponse
                emptyStore))) ''scope'' = Some 3600
   \<and> issued (snd (setCachedResponse sampleStringify True ''scope'' ''/b'' sampleResponse
                (snd (setCachedResponse sampleStringify True ''scope'' ''/a'' sampleResponse
                        emptyStore))))
       = [(Ops, Exists ''scope''), (Ops, HSet ''scope'' ''/a'' sampleText),
          (Ops, Expire ''scope'' 3600),
          (Ops, Exists ''scope''), (Ops, HSet ''scope'' ''/b'' sampleText)]
   \<and> ttl (opsDb (snd (setCachedResponse sampleStringify True ''scope'' ''/b'' sampleResponse
                (snd (setCachedResponse sampleStringify True ''scope'' ''/a'' sampleResponse
                        emptyStore))))) ''scope'' = Some 3600"
proof -
  have s: "sampleStringify sampleResponse = Inr sampleText"
    by (simp add: sampleStringify_def)
  have f: "\<not> fails emptyStore q" for q
    by (simp add: emptyStore_def)
  have fresh: "\<not> keyExists (opsDb emptyStore) ''scope''"
    by (simp add: keyExists_def emptyStore_def emptyDb_def)
  have e: "issued emptyStore = []" "ttl (opsDb emptyStore) = Map.empty"
    by (simp_all add: emptyStore_def emptyDb_def)
  obtain r1 w1 where
    w1: "setCachedResponse sampleStringify True ''scope'' ''/a'' sampleResponse emptyStore
           = (r1, w1)"
    by (cases "setCachedResponse sampleStringify True ''scope'' ''/a'' sampleResponse emptyStore")
  have f1: "\<not> fails w1 q" for q
    using setCachedResponse_keeps_fails
            [of sampleStringify True "''scope''" "''/a''" sampleResponse emptyStore] f
    by (simp add: w1)
  obtain r2 w2 where
    w2: "setCachedResponse sampleStringify True ''scope'' ''/b'' sampleResponse w1 = (r2, w2)"
    by (cases "setCachedResponse sampleStringify True ''scope'' ''/b'' sampleResponse w1")
  note first = setCachedResponse_expiry
                 [where JSON_stringify = sampleStringify and response = sampleResponse
                    and serialized = sampleText and w = emptyStore
                    and scopeKey = "''scope''" and url = "''/a''",
                  OF s f f f, unfolded w1]
  note second = setCachedResponse_expiry
                  [where JSON_stringify = sampleStringify and response = sampleResponse
                     and serialized = sampleText and w = w1
                     and scopeKey = "''scope''" and url = "''/b''",
                   OF s f1 f1 f1, unfolded w2]
  from first fresh e have a:
    "r1 = Inr ()" "keyExists (opsDb w1) ''scope''"
    "issued w1 = [(Ops, Exists ''scope''), (Ops, HSet ''scope'' ''/a'' sampleText),
                  (Ops, Expire ''scope'' 3600)]"
    "ttl (opsDb w1) ''scope'' = Some 3600"
    by simp_all
  from second a have b:
    "issued w2 = [(Ops, Exists ''scope''), (Ops, HSet ''scope'' ''/a'' sampleText),
                  (Ops, Expire ''scope'' 3600),
                  (Ops, Exists ''scope''), (Ops, HSet ''scope'' ''/b'' sampleText)]"
    "ttl (opsDb w2) ''scope'' = Some 3600"
    by simp_all
  show ?thesis
    using s a b by (simp add: w1 w2)
qed

text \<open>
  C6. For a response that serializes to a text which parses back to the response (a JSON
  text is never empty), \<open>setCachedResponse\<close> followed by \<open>getCachedResponse\<close> with
  the same scope key and url, on the enabled manager and a store that accepts the
  requests, returns that response.
\<close>

theorem set_then_get_roundtrip:
  assumes "JSON_stringify response = Inr serialized"
    and "serialized \<noteq> []"
    and "JSON_parse serialized = Inr response"
    and "\<not> fails w (Ops, Exists scopeKey)"
    and "\<not> fails w (Ops, HSet scopeKey url serialized)"
    and "\<not> fails w (Ops, Expire scopeKey 3600)"
    and "\<not> fails w (Ops, HGet scopeKey url)"
  shows
    "case setCachedResponse JSON_stringify True scopeKey url response w of
       (result, w') \<Rightarrow>
         result = Inr ()
         \<and> getCachedResponse JSON_parse True scopeKey url w'
             = (Inr (Some response), w'\<lparr>issued := issued w' @ [(Ops, HGet scopeKey url)]\<rparr>)"
  using assms
  by (simp add: setCachedResponse_def getCachedResponse_def exists_def hset_def hget_def
      expire_def send_def getDb_def putDb_def db_hset_def db_expire_def keyExists_def
      DEFAULT_EXPIRY_def resolve_def reject_def truthy_def Let_def)

text \<open>C6 on the empty store, with the sample response.\<close>

theorem set_then_get_roundtrip_witness:
  "sampleStringify sampleResponse = Inr sampleText
   \<and> sampleText \<noteq> []
   \<and> sampleParse sampleText = Inr sampleResponse
   \<and> fst (setCachedResponse sampleStringify True ''scope'' ''/a'' sampleResponse emptyStore)
       = Inr ()
   \<and> fst (getCachedResponse sampleParse True ''scope'' ''/a''
            (snd (setCachedResponse sampleStringify True ''scope'' ''/a'' sampleResponse
                    emptyStore)))
       = Inr (Some sampleResponse)"
proof -
  have s: "sampleStringify sampleResponse = Inr sampleText"
    by (simp add: sampleStringify_def)
  have n: "sampleText \<noteq> []"
    by (simp add: sampleText_def)
  have p: "sampleParse sampleText = Inr sampleResponse"
    by (simp add: sampleParse_def)
  have f: "\<not> fails emptyStore q" for q
    by (simp add: emptyStore_def)
  show ?thesis
    using set_then_get_roundtrip
            [where JSON_stringify = sampleStringify and JSON_parse = sampleParse
               and response = sampleResponse and serialized = sampleText
               and w = emptyStore and scopeKey = "''scope''" and url = "''/a''",
             OF s n p f f f f] s n p
    by (simp split: prod.splits)
qed

section \<open>Reading the metrics\<close>

lemma getMetricsWithDeploymentKey_async_eq:
  "getMetricsWithDeploymentKey_async isEnabled deploymentKey w
     = getMetricsWithDeploymentKey isEnabled deploymentKey w"
  by (simp add: getMetricsWithDeploymentKey_async_def getMetricsWithDeploymentKey_def
      await_def resolve_def reject_def Let_def split: prod.splits sum.splits)

text \<open>
  C2 as stated fails: with the values \<open>abc\<close> and \<open>12abc\<close> stored, neither of them an
  integer, \<open>getMetricsWithDeploymentKey\<close> does not fail; it resolves with \<^verbatim>\<open>NaN\<close> for
  the first and 12 for the second.
\<close>

theorem getMetrics_malformed_counterexample:
  "string2ll ''abc'' = None \<and> string2ll ''12abc'' = None
   \<and> (case fst (getMetricsWithDeploymentKey True ''D''
                  (storeWithLabels ''D'' [''L:Active'' \<mapsto> ''abc'',
                                          ''L:Downloaded'' \<mapsto> ''12abc''])) of
         Inl err \<Rightarrow> False
       | Inr None \<Rightarrow> False
       | Inr (Some parsed) \<Rightarrow>
           parsed ''L:Active'' = Some NaN \<and> parsed ''L:Downloaded'' = Some (Num 12))"
proof -
  have a: "parseInt10 ''abc'' = NaN"
    by (rule parseInt10_no_digit) (simp add: isDigit_def)
  have "intToString 12 = ''12''"
    by (simp add: intToString_def digitsOf.simps digitChar_def)
  then have b: "parseInt10 ''12abc'' = Num 12"
    using parseInt10_integer_prefix [of 12 "''abc''"] by (simp add: isDigit_def)
  have s: "string2ll ''abc'' = None" "string2ll ''12abc'' = None"
    by (simp_all add: string2ll_def isDigit_def)
  show ?thesis
    using a b s
    by (simp add: getMetricsWithDeploymentKey_def storeWithLabels_def hgetall_def send_def
        getDb_def putDb_def emptyStore_def emptyDb_def resolve_def Let_def
        getDeploymentKeyLabelsHash_def)
qed

text \<open>
  C2, amended. For every deployment key, \<open>getMetricsWithDeploymentKey\<close> on the enabled
  manager, on a store that accepts the request and whose field names are UTF-8 text,
  never fails because of a stored value: it resolves with the stored labels hash, less a
  field named \<open>__proto__\<close>, every stored value passed through
  \<^verbatim>\<open>parseInt(value, 10)\<close>. A value that is a decimal integer of magnitude up to
  \<open>2^53\<close>, alone or followed by something that is not a digit, is returned as that
  integer; a value without any digit is returned as \<^verbatim>\<open>NaN\<close>; neither is reported.
  Both source versions behave so.
\<close>

theorem getMetrics_parses_every_value:
  assumes "\<not> fails w (Metrics, HGetAll (getDeploymentKeyLabelsHash deploymentKey))"
    and "\<forall>field \<in> dom (hashes (metricsDb w) (getDeploymentKeyLabelsHash deploymentKey)).
           wellFormedUTF8 field"
  shows
    "case getMetricsWithDeploymentKey True deploymentKey w of
       (result, w') \<Rightarrow>
         (\<exists>parsed.
            result = Inr (Some parsed)
            \<and> (\<forall>field.
                  parsed field =
                    (if field = ''__proto__'' then None
                     else map_option parseInt10
                            (hashes (metricsDb w) (getDeploymentKeyLabelsHash deploymentKey)
                               field)))
            \<and> (\<forall>field n rest.
                  field \<noteq> ''__proto__''
                  \<and> hashes (metricsDb w) (getDeploymentKeyLabelsHash deploymentKey) field
                      = Some (intToString n @ rest)
                  \<and> \<bar>n\<bar> \<le> 2 ^ 53 \<and> (rest = [] \<or> \<not> isDigit (hd rest)) \<longrightarrow>
                  parsed field = Some (Num n))
            \<and> (\<forall>field v.
                  field \<noteq> ''__proto__''
                  \<and> hashes (metricsDb w) (getDeploymentKeyLabelsHash deploymentKey) field
                      = Some v
                  \<and> (\<forall>c \<in> set v. \<not> isDigit c) \<longrightarrow>
                  parsed field = Some NaN))
         \<and> w' = w\<lparr>issued := issued w @
                     [(Metrics, HGetAll (getDeploymentKeyLabelsHash deploymentKey))]\<rparr>
         \<and> getMetricsWithDeploymentKey_async True deploymentKey w = (result, w')"
proof -
  let ?stored = "hashes (metricsDb w) (getDeploymentKeyLabelsHash deploymentKey)"
  let ?parsed = "\<lambda>field. if field = ''__proto__'' then None
                          else map_option parseInt10 (?stored field)"
  have run: "getMetricsWithDeploymentKey True deploymentKey w =
               (Inr (Some ?parsed),
                w\<lparr>issued := issued w @
                     [(Metrics, HGetAll (getDeploymentKeyLabelsHash deploymentKey))]\<rparr>)"
    using assms(1)
    by (simp add: getMetricsWithDeploymentKey_def hgetall_def send_def getDb_def putDb_def
        resolve_def Let_def map_option_case fun_eq_iff)
  have prefix: "?parsed field = Some (Num n)"
    if "field \<noteq> ''__proto__''" "?stored field = Some (intToString n @ rest)"
       "\<bar>n\<bar> \<le> 2 ^ 53" "rest = [] \<or> \<not> isDigit (hd rest)" for field n rest
    using that parseInt10_integer_prefix [of n rest] by simp
  have nodigit: "?parsed field = Some NaN"
    if "field \<noteq> ''__proto__''" "?stored field = Some v" "\<forall>c \<in> set v. \<not> isDigit c"
    for field v
    using that parseInt10_no_digit [of v] by simp
  show ?thesis
    unfolding run getMetricsWithDeploymentKey_async_eq
    using prefix nodigit by (intro case_prodI conjI exI [of _ ?parsed]) auto
qed

text \<open>
  C2, amended, on a store holding \<open>L:Active = 7\<close>, \<open>L:Downloaded = x\<close> and
  \<open>__proto__ = 5\<close>: the result maps the first to 7 and the second to \<^verbatim>\<open>NaN\<close>, and has
  no other field.
\<close>

theorem getMetrics_parses_every_value_witness:
  "\<not> fails (storeWithLabels ''D'' [''L:Active'' \<mapsto> ''7'', ''L:Downloaded'' \<mapsto> ''x'',
                                    ''__proto__'' \<mapsto> ''5''])
        (Metrics, HGetAll (getDeploymentKeyLabelsHash ''D''))
   \<and> wellFormedUTF8 ''L:Active'' \<and> wellFormedUTF8 ''L:Downloaded''
   \<and> wellFormedUTF8 ''__proto__''
   \<and> intToString 7 = ''7'' \<and> \<bar>7 :: int\<bar> \<le> 2 ^ 53
   \<and> (case fst (getMetricsWithDeploymentKey True ''D''
                  (storeWithLabels ''D'' [''L:Active'' \<mapsto> ''7'', ''L:Downloaded'' \<mapsto> ''x'',
                                          ''__proto__'' \<mapsto> ''5''])) of
         Inl err \<Rightarrow> False
       | Inr None \<Rightarrow> False
       | Inr (Some parsed) \<Rightarrow>
           parsed ''L:Active'' = Some (Num 7) \<and> parsed ''L:Downloaded'' = Some NaN
           \<and> parsed ''__proto__'' = None \<and> parsed ''L:DeploymentFailed'' = None)"
proof -
  let ?h = "[''L:Active'' \<mapsto> ''7'', ''L:Downloaded'' \<mapsto> ''x'', ''__proto__'' \<mapsto> ''5'']"
  let ?w = "storeWithLabels ''D'' ?h"
  have f: "\<not> fails ?w (Metrics, HGetAll (getDeploymentKeyLabelsHash ''D''))"
    by (simp add: storeWithLabels_def emptyStore_def)
  have stored: "hashes (metricsDb ?w) (getDeploymentKeyLabelsHash ''D'') = ?h"
    by (simp add: storeWithLabels_def)
  have u: "wellFormedUTF8 ''L:Active''" "wellFormedUTF8 ''L:Downloaded''"
          "wellFormedUTF8 ''__proto__''"
    by (simp_all add: byte_def)
  have d: "\<forall>field \<in> dom (hashes (metricsDb ?w) (getDeploymentKeyLabelsHash ''D'')).
             wellFormedUTF8 field"
    unfolding stored using u by simp
  have i: "intToString 7 = ''7''"
    by (simp add: intToString_def digitsOf.simps digitChar_def)
  have small: "\<bar>7 :: int\<bar> \<le> 2 ^ 53"
    by simp
  obtain result w' where r: "getMetricsWithDeploymentKey True ''D'' ?w = (result, w')"
    by (cases "getMetricsWithDeploymentKey True ''D'' ?w")
  note t = getMetrics_parses_every_value [OF f d, unfolded r stored prod.case]
  from t obtain parsed where
    p: "result = Inr (Some parsed)"
       "\<forall>field. parsed field =
          (if field = ''__proto__'' then None else map_option parseInt10 (?h field))"
       "\<forall>field n rest. field \<noteq> ''__proto__'' \<and> ?h field = Some (intToString n @ rest)
                     \<and> \<bar>n\<bar> \<le> 2 ^ 53 \<and> (rest = [] \<or> \<not> isDigit (hd rest))
                   \<longrightarrow> parsed field = Some (Num n)"
       "\<forall>field v. field \<noteq> ''__proto__'' \<and> ?h field = Some v
                     \<and> (\<forall>c \<in> set v. \<not> isDigit c) \<longrightarrow> parsed field = Some NaN"
    by (elim conjE exE) (rule that)
  have a: "?h ''L:Active'' = Some (intToString 7 @ [])"
    by (simp add: i)
  have 1: "parsed ''L:Active'' = Some (Num 7)"
    using p(3) [rule_format, of "''L:Active''" 7 "[]"] a small by simp
  have x: "?h ''L:Downloaded'' = Some ''x''" "\<forall>c \<in> set ''x''. \<not> isDigit c"
    by (simp_all add: isDigit_def)
  have 2: "parsed ''L:Downloaded'' = Some NaN"
    using p(4) [rule_format, of "''L:Downloaded''" "''x''"] x by simp
  have 3: "parsed ''__proto__'' = None" "parsed ''L:DeploymentFailed'' = None"
    using p(2) by simp_all
  show ?thesis
    using f u i small 1 2 3 by (simp add: r p(1))
qed

section \<open>The two source versions\<close>

lemma checkHealth_async_eq: "checkHealth_async isEnabled w = checkHealth isEnabled w"
  by (simp add: checkHealth_async_def checkHealth_def await_def resolve_def reject_def
      split: prod.splits sum.splits)

lemma incrementLabelStatusCount_async_eq:
  "incrementLabelStatusCount_async isEnabled deploymentKey label status w
     = incrementLabelStatusCount isEnabled deploymentKey label status w"
  by (simp add: incrementLabelStatusCount_async_def incrementLabelStatusCount_def await_def
      resolve_def reject_def Let_def split: prod.splits sum.splits)

lemma clearMetricsForDeploymentKey_async_eq:
  "clearMetricsForDeploymentKey_async isEnabled deploymentKey w
     = clearMetricsForDeploymentKey isEnabled deploymentKey w"
  by (simp add: clearMetricsForDeploymentKey_async_def clearMetricsForDeploymentKey_def
      await_def resolve_def reject_def split: prod.splits sum.splits)

lemma removeDeploymentKeyClientActiveLabel_async_eq:
  "removeDeploymentKeyClientActiveLabel_async isEnabled deploymentKey clientUniqueId w
     = removeDeploymentKeyClientActiveLabel isEnabled deploymentKey clientUniqueId w"
  by (simp add: removeDeploymentKeyClientActiveLabel_async_def
      removeDeploymentKeyClientActiveLabel_def await_def resolve_def reject_def
      split: prod.splits sum.splits)

lemma invalidateCache_async_eq:
  "invalidateCache_async isEnabled expiryKey w = invalidateCache isEnabled expiryKey w"
  by (simp add: invalidateCache_async_def invalidateCache_def await_def resolve_def
      reject_def split: prod.splits sum.splits)

lemma getCurrentActiveLabel_async_eq:
  "getCurrentActiveLabel_async isEnabled deploymentKey clientUniqueId w
     = getCurrentActiveLabel isEnabled deploymentKey clientUniqueId w"
  by (simp add: getCurrentActiveLabel_async_def getCurrentActiveLabel_def)

lemma updateActiveAppForClient_async_eq:
  "updateActiveAppForClient_async isEnabled deploymentKey clientUniqueId toLabel fromLabel w
     = updateActiveAppForClient isEnabled deploymentKey clientUniqueId toLabel fromLabel w"
  by (simp add: updateActiveAppForClient_async_def updateActiveAppForClient_def await_def
      resolve_def reject_def Let_def split: prod.splits sum.splits)

lemma quit_outcome:
  "quit c w =
     (if fails w (c, Quit) then Inl TransportError else Inr ''OK'',
      w\<lparr>issued := issued w @ [(c, Quit)]\<rparr>)"
  by (cases c) (simp_all add: quit_def send_def getDb_def putDb_def)

lemma close_async_eq:
  "(case opsClient of None \<Rightarrow> True | Some c \<Rightarrow> \<not> fails w (c, Quit)) \<Longrightarrow>
     close_async opsClient metricsClient w = close opsClient metricsClient w"
  by (cases opsClient; cases metricsClient)
     (simp_all add: close_async_def close_def promiseAll_def await_def resolve_def reject_def
        quit_outcome)

lemma close_same_outcome:
  "fst (close_async opsClient metricsClient w) = fst (close opsClient metricsClient w)
   \<and> opsDb (snd (close_async opsClient metricsClient w)) = opsDb w
   \<and> metricsDb (snd (close_async opsClient metricsClient w)) = metricsDb w
   \<and> opsDb (snd (close opsClient metricsClient w)) = opsDb w
   \<and> metricsDb (snd (close opsClient metricsClient w)) = metricsDb w"
  by (cases opsClient; cases metricsClient)
     (simp_all add: close_async_def close_def promiseAll_def await_def resolve_def reject_def
        quit_outcome)

text \<open>
  C10 as stated fails for \<open>close\<close>: when the store rejects the \<^verbatim>\<open>quit\<close> of the ops
  client, the Q version has issued both \<^verbatim>\<open>quit\<close> requests, and the async/await
  version stops after the first.
\<close>

theorem close_versions_differ_counterexample:
  "close (Some Ops) (Some Metrics) (emptyStore\<lparr>fails := (\<lambda>r. r = (Ops, Quit))\<rparr>)
     = (Inl TransportError,
        emptyStore\<lparr>fails := (\<lambda>r. r = (Ops, Quit)),
                    issued := [(Ops, Quit), (Metrics, Quit)]\<rparr>)
   \<and> close_async (Some Ops) (Some Metrics) (emptyStore\<lparr>fails := (\<lambda>r. r = (Ops, Quit))\<rparr>)
     = (Inl TransportError,
        emptyStore\<lparr>fails := (\<lambda>r. r = (Ops, Quit)), issued := [(Ops, Quit)]\<rparr>)
   \<and> close (Some Ops) (Some Metrics) (emptyStore\<lparr>fails := (\<lambda>r. r = (Ops, Quit))\<rparr>)
     \<noteq> close_async (Some Ops) (Some Metrics) (emptyStore\<lparr>fails := (\<lambda>r. r = (Ops, Quit))\<rparr>)"
  by (simp add: close_def close_async_def promiseAll_def await_def resolve_def reject_def
      quit_outcome emptyStore_def)

text \<open>
  C10, amended. Given the same flag, the same state of the store and the same answers,
  the two source versions of every public operation other than the constructor and
  \<open>close\<close> issue the same requests and end with the same result and the same store.
  The two versions of \<open>close\<close> end with the same result, and issue the same requests
  unless the \<^verbatim>\<open>quit\<close> of the ops client is rejected.
\<close>

theorem versions_agree:
  "checkHealth_async isEnabled w = checkHealth isEnabled w
   \<and> getCachedResponse_async JSON_parse isEnabled expiryKey url w
       = getCachedResponse JSON_parse isEnabled expiryKey url w
   \<and> setCachedResponse_async JSON_stringify isEnabled expiryKey url response w
       = setCachedResponse JSON_stringify isEnabled expiryKey url response w
   \<and> incrementLabelStatusCount_async isEnabled deploymentKey label status w
       = incrementLabelStatusCount isEnabled deploymentKey label status w
   \<and> clearMetricsForDeploymentKey_async isEnabled deploymentKey w
       = clearMetricsForDeploymentKey isEnabled deploymentKey w
   \<and> getMetricsWithDeploymentKey_async isEnabled deploymentKey w
       = getMetricsWithDeploymentKey isEnabled deploymentKey w
   \<and> recordUpdate_async isEnabled deploymentKey label previousDeploymentKey previousLabel w
       = recordUpdate isEnabled deploymentKey label previousDeploymentKey previousLabel w
   \<and> removeDeploymentKeyClientActiveLabel_async isEnabled deploymentKey clientUniqueId w
       = removeDeploymentKeyClientActiveLabel isEnabled deploymentKey clientUniqueId w
   \<and> invalidateCache_async isEnabled expiryKey w = invalidateCache isEnabled expiryKey w
   \<and> getCurrentActiveLabel_async isEnabled deploymentKey clientUniqueId w
       = getCurrentActiveLabel isEnabled deploymentKey clientUniqueId w
   \<and> updateActiveAppForClient_async isEnabled deploymentKey clientUniqueId label fromLabel w
       = updateActiveAppForClient isEnabled deploymentKey clientUniqueId label fromLabel w
   \<and> fst (close_async opsClient metricsClient w) = fst (close opsClient metricsClient w)
   \<and> ((case opsClient of None \<Rightarrow> True | Some c \<Rightarrow> \<not> fails w (c, Quit)) \<longrightarrow>
        close_async opsClient metricsClient w = close opsClient metricsClient w)"
  by (simp add: checkHealth_async_eq getCachedResponse_async_eq setCachedResponse_async_eq
      incrementLabelStatusCount_async_eq clearMetricsForDeploymentKey_async_eq
      getMetricsWithDeploymentKey_async_eq recordUpdate_async_eq
      removeDeploymentKeyClientActiveLabel_async_eq invalidateCache_async_eq
      getCurrentActiveLabel_async_eq updateActiveAppForClient_async_eq close_async_eq
      close_same_outcome)

text \<open>
  C10, amended, on the empty store, which rejects nothing: the two versions of \<open>close\<close>
  agree, and both \<^verbatim>\<open>quit\<close> requests are issued.
\<close>

theorem versions_agree_witness:
  "\<not> fails emptyStore (Ops, Quit)
   \<and> close_async (Some Ops) (Some Metrics) emptyStore
       = close (Some Ops) (Some Metrics) emptyStore
   \<and> issued (snd (close (Some Ops) (Some Metrics) emptyStore))
       = [(Ops, Quit), (Metrics, Quit)]"
proof -
  have f: "\<not> fails emptyStore (Ops, Quit)"
    by (simp add: emptyStore_def)
  have "close_async (Some Ops) (Some Metrics) emptyStore
          = close (Some Ops) (Some Metrics) emptyStore"
    using versions_agree
            [where opsClient = "Some Ops" and metricsClient = "Some Metrics"
               and w = emptyStore and isEnabled = True and JSON_parse = sampleParse
               and JSON_stringify = sampleStringify and response = sampleResponse
               and expiryKey = "''scope''" and url = "''/a''" and deploymentKey = "''D''"
               and label = "''L''" and status = "''Downloaded''"
               and previousDeploymentKey = None and previousLabel = None
               and clientUniqueId = "''c''" and fromLabel = None] f
    by simp
  moreover have "issued (snd (close (Some Ops) (Some Metrics) emptyStore))
                   = [(Ops, Quit), (Metrics, Quit)]"
    by (simp add: close_def promiseAll_def resolve_def reject_def quit_outcome emptyStore_def)
  ultimately show ?thesis using f by simp
qed

end
